theory Spec2Isabelle
  imports Main "HOL-Library.Word"
begin

unbundle bit_operations_syntax

section \<open>The high-level PAPI interface: a model of papi\_hl.c\<close>

text \<open>
  The definitions follow papi\_hl.c function by function and keep its names (without the
  leading underscore, which is not an identifier character here).

  \<^item> \<open>long_long\<close> and \<open>unsigned long\<close> are 64-bit words; sums and differences of counter
    values wrap around. Counts that are only incremented and used as loop bounds or
    array sizes are natural numbers.
  \<^item> A C array whose extent is kept in a separate counter is a function from the index;
    the code reads it below that counter only.
  \<^item> The doubly-linked lists of regions and of read values are lists whose first element
    is the head node; \<open>next\<close> walks to the right and \<open>prev\<close> to the left. A pointer to
    a node of the store is its position.
  \<^item> The global variables are the fields of \<open>glob\<close>, the thread-local ones those of
    \<open>tls\<close>. The lock HIGHLEVEL\_LOCK is not modelled: calls are executed one after the
    other.
  \<^item> The low-level PAPI library, the C library and the operating system are outside
    papi\_hl.c. What they answer to the calls made during one operation is the record
    \<open>hw\<close>, an argument of every operation; every theorem holds for all such answers.
  \<^item> \<open>mallocs_left\<close> is the number of allocation requests that will still succeed; the
    request made when it is 0 returns NULL.
  \<^item> \<open>verbose_fprintf\<close> appends the format string and its arguments to \<open>stdout\<close>; the
    double quotes and the final newline of the format strings are left out. HLDBG is
    compiled out.
  \<^item> An operation that dereferences a null or unset pointer returns \<open>None\<close>.
\<close>

subsection \<open>Constants of papi.h\<close>

text \<open>
  papi.h is not part of papi\_hl.c. The return codes below carry the values papi.h gives
  them; the theorems use only that they differ from each other.
\<close>

definition PAPI_OK :: int where "PAPI_OK = 0"
definition PAPI_EINVAL :: int where "PAPI_EINVAL = - 1"
definition PAPI_ENOMEM :: int where "PAPI_ENOMEM = - 2"
definition PAPI_ESYS :: int where "PAPI_ESYS = - 3"
definition PAPI_ENOTRUN :: int where "PAPI_ENOTRUN = - 9"
definition PAPI_EISRUN :: int where "PAPI_EISRUN = - 10"
definition PAPI_EMISC :: int where "PAPI_EMISC = - 14"
definition PAPI_ENOINIT :: int where "PAPI_ENOINIT = - 16"
definition PAPI_ENOSUPP :: int where "PAPI_ENOSUPP = - 18"
definition PAPI_NULL :: int where "PAPI_NULL = - 1"
definition PAPI_RUNNING :: "32 word" where "PAPI_RUNNING = 0x02"

lemmas papi_codes = PAPI_OK_def PAPI_EINVAL_def PAPI_ENOMEM_def PAPI_ESYS_def
  PAPI_ENOTRUN_def PAPI_EISRUN_def PAPI_EMISC_def PAPI_ENOINIT_def PAPI_ENOSUPP_def

definition PAPIHL_NUM_OF_COMPONENTS :: nat where "PAPIHL_NUM_OF_COMPONENTS = 10"
definition PAPIHL_NUM_OF_EVENTS_PER_COMPONENT :: nat where
  "PAPIHL_NUM_OF_EVENTS_PER_COMPONENT = 10"
definition PAPIHL_ACTIVE :: bool where "PAPIHL_ACTIVE = True"
definition PAPIHL_DEACTIVATED :: bool where "PAPIHL_DEACTIVATED = False"

subsection \<open>Data\<close>

type_synonym long_long = "64 word"
type_synonym ulong = "64 word"

datatype region_type = REGION_BEGIN | REGION_READ | REGION_END

text \<open>An argument of a format string: \<open>%s\<close>, \<open>%lu\<close> or \<open>%d\<close>.\<close>

datatype farg = S string | U ulong | D int

type_synonym line = "string \<times> farg list"

record components_t =
  component_id :: int
  num_of_events :: nat
  max_num_of_events :: nat
  event_names :: "nat \<Rightarrow> string"
  event_codes :: "nat \<Rightarrow> int"
  event_types :: "nat \<Rightarrow> int"
  EventSet :: int

record local_components_t =
  lEventSet :: int
  lvalues :: "nat \<Rightarrow> long_long"

text \<open>\<open>read_values\<close> is the chain of \<open>reads_t\<close> nodes, of which only \<open>value\<close> is data.\<close>

record value_t =
  offset :: long_long
  total :: long_long
  read_values :: "long_long list"

record regions_t =
  region :: string
  values' :: "nat \<Rightarrow> value_t"

record threads_t =
  key :: ulong
  regions :: "regions_t list"

text \<open>
  The tree that \<open>tsearch\<close> builds under \<open>binary_tree->root\<close>: every node of it holds a
  pointer to a thread node, that is, the position of the thread node in the list of all
  thread nodes.
\<close>

datatype node_t = Leaf_t | Node_t node_t nat node_t

text \<open>
  The report: per thread its id and regions, per region its name and events, per event
  its name, its total and the numbered read values (\<open>read_1\<close>, \<open>read_2\<close>, ...).
\<close>

type_synonym json_event = "string \<times> long_long \<times> (nat \<times> long_long) list"
type_synonym json_region = "string \<times> json_event list"
type_synonym json_thread = "ulong \<times> json_region list"

text \<open>
  A file is its path and what has been written to it: nothing yet, or the clock rate and
  the threads. \<open>files\<close> lists the files in the order they are created or rewritten.
\<close>

type_synonym output_file = "string \<times> (int \<times> json_thread list) option"

record glob =
  components :: "nat \<Rightarrow> components_t"
  components_freed :: bool
  num_of_components :: nat
  max_num_of_components :: nat
  total_num_events :: nat
  num_of_cleaned_threads :: int
  binary_tree :: "threads_t list option"
  requested_event_names :: "nat \<Rightarrow> string option"
  num_of_requested_events :: nat
  hl_initiated :: bool
  hl_finalized :: bool
  events_determined :: bool
  output_generated :: bool
  absolute_output_file_path :: "string option"
  output_counter :: int
  verbosity :: int
  state :: bool
  region_begin_cnt :: int
  region_end_cnt :: int
  master_thread_id :: ulong
  mallocs_left :: nat
  stdout :: "line list"
  files :: "output_file list"
  papi_shutdown_called :: bool
  library_is_initialized :: bool
  root :: node_t

record tls =
  local_components :: "(nat \<Rightarrow> local_components_t) option"
  local_cycles :: long_long
  local_state :: bool
  local_region_begin_cnt :: int
  local_region_end_cnt :: int

text \<open>
  The answers of the environment. Calls on an event set are told apart by the index of
  the component the event set belongs to; \<open>PAPI_add_event\<close> is given the codes the event
  set already holds.
\<close>

record hw =
  PAPI_thread_id :: ulong
  getenv :: "string \<Rightarrow> string option"
  have_pthread_once :: bool
  PAPI_library_init_ok :: bool
  PAPI_thread_init :: int
  PAPI_multiplex_init :: int
  getcwd :: string
  stat_is_dir :: bool
  stat_mtime :: nat
  time_now :: nat
  rename_ok :: bool
  atoi :: "string \<Rightarrow> int"
  mkstemp :: string
  PAPI_create_eventset :: "int \<times> int"
  PAPI_event_name_to_code :: "string \<Rightarrow> int \<times> int"
  PAPI_COMPONENT_INDEX :: "int \<Rightarrow> int"
  PAPI_add_event :: "int list \<Rightarrow> int \<Rightarrow> int"
  PAPI_cleanup_eventset :: int
  PAPI_destroy_eventset :: int
  PAPI_assign_eventset_component :: int
  PAPI_get_multiplex :: bool
  PAPI_set_multiplex :: int
  PAPI_get_component_info_name :: "int \<Rightarrow> string"
  PAPI_start :: "nat \<Rightarrow> int"
  PAPI_read :: "nat \<Rightarrow> int \<times> (nat \<Rightarrow> long_long)"
  PAPI_read_ts :: "nat \<Rightarrow> int \<times> (nat \<Rightarrow> long_long) \<times> long_long"
  PAPI_stop :: "nat \<Rightarrow> int"
  PAPI_list_threads :: "int \<times> ulong list"
  PAPI_get_opt_CLOCKRATE :: int
  dataSlotArray :: "32 word option list"
  mkdir_ok :: bool
  fopen_ok :: bool
  tsearch_rebalance :: "node_t \<Rightarrow> node_t"

subsection \<open>Diagnostics and allocation\<close>

definition verbose_fprintf :: "glob \<Rightarrow> string \<Rightarrow> farg list \<Rightarrow> glob" where
  "verbose_fprintf g fmt args =
     (if verbosity g = 1 then g\<lparr>stdout := stdout g @ [(fmt, args)]\<rparr> else g)"

text \<open>\<open>malloc\<close>, \<open>strdup\<close> and \<open>realloc\<close>: whether the request succeeds, and the heap after it.\<close>

definition malloc :: "nat \<Rightarrow> bool \<times> nat" where
  "malloc heap = (if heap = 0 then (False, 0) else (True, heap - 1))"

text \<open>Memory that \<open>malloc\<close> returns and the code has not written yet.\<close>

definition fresh_value :: value_t where
  "fresh_value = \<lparr>offset = 0, total = 0, read_values = []\<rparr>"

subsection \<open>Storing events\<close>

definition compar :: "ulong \<Rightarrow> ulong \<Rightarrow> 32 word" where
  "compar l r = ucast (l - r)"

text \<open>
  The new node becomes the head; its \<open>value\<close> is written by the caller. \<open>None\<close> is the
  NULL that the function returns when \<open>malloc\<close> fails.
\<close>

definition internal_hl_insert_read_node ::
  "nat \<Rightarrow> long_long list \<Rightarrow> (long_long list) option \<times> nat" where
  "internal_hl_insert_read_node heap head_node =
     (case malloc heap of
        (False, heap1) \<Rightarrow> (None, heap1)
      | (True, heap1) \<Rightarrow> (Some (0 # head_node), heap1))"

text \<open>
  \<open>for ( i = 0; i < num_of_components; i++ ) for ( j = 0; j < components[i].num_of_events; j++ )\<close>
\<close>

definition for_events :: "glob \<Rightarrow> (nat \<Rightarrow> nat \<Rightarrow> 'a \<Rightarrow> 'a) \<Rightarrow> 'a \<Rightarrow> 'a" where
  "for_events g body =
     fold (\<lambda>i. fold (\<lambda>j. body i j) [0..<num_of_events (components g i)])
       [0..<num_of_components g]"

text \<open>The bodies of the three event loops; the accumulator holds \<open>cmp_iter\<close>.\<close>

definition region_begin_body ::
  "(nat \<Rightarrow> local_components_t) \<Rightarrow> nat \<Rightarrow> nat \<Rightarrow>
     nat \<times> (nat \<Rightarrow> value_t) \<Rightarrow> nat \<times> (nat \<Rightarrow> value_t)" where
  "region_begin_body lc i j = (\<lambda>(cmp_iter, vals).
     (cmp_iter + 1, vals(cmp_iter := (vals cmp_iter)\<lparr>offset := lvalues (lc i) j\<rparr>)))"

definition region_read_body ::
  "glob \<Rightarrow> (nat \<Rightarrow> local_components_t) \<Rightarrow> nat \<Rightarrow> nat \<Rightarrow>
     int \<times> nat \<times> (nat \<Rightarrow> value_t) \<times> nat \<Rightarrow> int \<times> nat \<times> (nat \<Rightarrow> value_t) \<times> nat" where
  "region_read_body g lc i j = (\<lambda>(retval, cmp_iter, vals, heap).
     if retval \<noteq> PAPI_OK then (retval, cmp_iter, vals, heap)
     else
       (case internal_hl_insert_read_node heap (read_values (vals cmp_iter)) of
          (None, heap1) \<Rightarrow> (PAPI_ENOMEM, cmp_iter, vals, heap1)
        | (Some rd, heap1) \<Rightarrow>
            (PAPI_OK, cmp_iter + 1,
             vals(cmp_iter := (vals cmp_iter)\<lparr>read_values :=
               (if event_types (components g i) j = 1 then lvalues (lc i) j
                else lvalues (lc i) j - offset (vals cmp_iter)) # tl rd\<rparr>),
             heap1)))"

definition region_end_body ::
  "glob \<Rightarrow> (nat \<Rightarrow> local_components_t) \<Rightarrow> nat \<Rightarrow> nat \<Rightarrow>
     nat \<times> (nat \<Rightarrow> value_t) \<Rightarrow> nat \<times> (nat \<Rightarrow> value_t)" where
  "region_end_body g lc i j = (\<lambda>(cmp_iter, vals).
     (cmp_iter + 1,
      vals(cmp_iter := (vals cmp_iter)\<lparr>total :=
        (if event_types (components g i) j = 1
         then total (vals cmp_iter) + lvalues (lc i) j
         else total (vals cmp_iter) + (lvalues (lc i) j - offset (vals cmp_iter)))\<rparr>)))"

text \<open>
  The result is the return value, the node as the function leaves it and the heap.
  \<open>lc\<close> is \<open>_local_components\<close> and \<open>cycles\<close> is \<open>_local_cycles\<close>.
\<close>

definition internal_hl_add_values_to_region ::
  "glob \<Rightarrow> (nat \<Rightarrow> local_components_t) \<Rightarrow> long_long \<Rightarrow> regions_t \<Rightarrow> region_type \<Rightarrow>
     int \<times> regions_t \<times> nat" where
  "internal_hl_add_values_to_region g lc cycles node reg_typ =
     (let region_count = 1; vals = values' node; heap = mallocs_left g in
      case reg_typ of
        REGION_BEGIN \<Rightarrow>
          (let vals0 = vals(0 := (vals 0)\<lparr>offset := region_count\<rparr>);
               vals1 = vals0(1 := (vals0 1)\<lparr>offset := cycles\<rparr>);
               (cmp_iter, vals2) = for_events g (region_begin_body lc) (2, vals1)
           in (PAPI_OK, node\<lparr>values' := vals2\<rparr>, heap))
      | REGION_READ \<Rightarrow>
          (case internal_hl_insert_read_node heap (read_values (vals 1)) of
             (None, heap1) \<Rightarrow> (PAPI_ENOMEM, node, heap1)
           | (Some rd, heap1) \<Rightarrow>
               (let vals1 = vals(1 := (vals 1)\<lparr>read_values :=
                               (cycles - offset (vals 1)) # tl rd\<rparr>);
                    (retval, cmp_iter, vals2, heap2) =
                       for_events g (region_read_body g lc) (PAPI_OK, 2, vals1, heap1)
                in (retval, node\<lparr>values' := vals2\<rparr>, heap2)))
      | REGION_END \<Rightarrow>
          (let vals0 = vals(0 := (vals 0)\<lparr>total := total (vals 0) + offset (vals 0)\<rparr>);
               vals1 = vals0(1 := (vals0 1)\<lparr>total :=
                          total (vals0 1) + (cycles - offset (vals0 1))\<rparr>);
               (cmp_iter, vals2) = for_events g (region_end_body g lc) (2, vals1)
           in (PAPI_OK, node\<lparr>values' := vals2\<rparr>, heap)))"

text \<open>
  The new node gets \<open>total_num_events + 2\<close> values with \<open>total\<close> 0 and no read values,
  and becomes the head of the list. \<open>None\<close> is the NULL of a failed allocation; the list
  is then as it was.
\<close>

definition internal_hl_insert_region_node ::
  "glob \<Rightarrow> regions_t list \<Rightarrow> string \<Rightarrow> (regions_t list) option \<times> nat" where
  "internal_hl_insert_region_node g head_node rname =
     (let extended_total_num_events = total_num_events g + 2 in
      case malloc (mallocs_left g) of
        (False, heap1) \<Rightarrow> (None, heap1)
      | (True, heap1) \<Rightarrow>
          (case malloc heap1 of
             (False, heap2) \<Rightarrow> (None, heap2)
           | (True, heap2) \<Rightarrow>
               (let new_node = \<lparr>region = rname,
                      values' = fold (\<lambda>i vals. vals(i := (vals i)\<lparr>total := 0, read_values := []\<rparr>))
                                 [0..<extended_total_num_events] (\<lambda>i. fresh_value)\<rparr>
                in (Some (new_node # head_node), heap2))))"

text \<open>The position of the first node with that name, counted from the head.\<close>

fun internal_hl_find_region_node :: "regions_t list \<Rightarrow> string \<Rightarrow> nat option" where
  "internal_hl_find_region_node [] rname = None"
| "internal_hl_find_region_node (find_node # rest) rname =
     (if region find_node = rname then Some 0
      else map_option Suc (internal_hl_find_region_node rest rname))"

text \<open>
  \<open>tsearch\<close> and \<open>tfind\<close> belong to the C library. \<open>tfind\<close> walks down from the root:
  it calls \<open>compar\<close> with the key it looks for and the thread node of the tree node it
  is at, returns that tree node when the result is 0, and goes on in the left subtree when
  the result, an \<open>int\<close>, is negative and in the right subtree otherwise. \<open>ns\<close> is the list
  of all thread nodes.
\<close>

fun tfind :: "ulong \<Rightarrow> threads_t list \<Rightarrow> node_t \<Rightarrow> nat option" where
  "tfind tid ns Leaf_t = None"
| "tfind tid ns (Node_t l p r) =
     (if compar tid (key (ns ! p)) = 0 then Some p
      else if sint (compar tid (key (ns ! p))) < 0 then tfind tid ns l
      else tfind tid ns r)"

text \<open>
  \<open>tsearch\<close> walks in the same way and puts the new tree node where the walk leaves
  the tree. The library may then rebalance the tree (glibc keeps a red-black tree):
  \<open>tsearch_rebalance\<close> is what it makes of the tree, and whatever it does, the tree nodes
  keep their order from left to right.
\<close>

fun inorder_t :: "node_t \<Rightarrow> nat list" where
  "inorder_t Leaf_t = []"
| "inorder_t (Node_t l p r) = inorder_t l @ p # inorder_t r"

fun tsearch_leaf :: "ulong \<Rightarrow> nat \<Rightarrow> threads_t list \<Rightarrow> node_t \<Rightarrow> node_t" where
  "tsearch_leaf tid new_node ns Leaf_t = Node_t Leaf_t new_node Leaf_t"
| "tsearch_leaf tid new_node ns (Node_t l p r) =
     (if compar tid (key (ns ! p)) = 0 then Node_t l p r
      else if sint (compar tid (key (ns ! p))) < 0
        then Node_t (tsearch_leaf tid new_node ns l) p r
      else Node_t l p (tsearch_leaf tid new_node ns r))"

definition tsearch :: "hw \<Rightarrow> ulong \<Rightarrow> nat \<Rightarrow> threads_t list \<Rightarrow> node_t \<Rightarrow> node_t" where
  "tsearch h tid new_node ns rootp =
     (let r1 = tsearch_leaf tid new_node ns rootp;
          r2 = tsearch_rebalance h r1
      in if inorder_t r2 = inorder_t r1 then r2 else r1)"

text \<open>The new thread node is the last one of the list of all thread nodes.\<close>

definition internal_hl_insert_thread_node ::
  "hw \<Rightarrow> ulong \<Rightarrow> glob \<Rightarrow> (nat option \<times> glob) option" where
  "internal_hl_insert_thread_node h tid g =
     (case malloc (mallocs_left g) of
        (False, heap1) \<Rightarrow> Some (None, g\<lparr>mallocs_left := heap1\<rparr>)
      | (True, heap1) \<Rightarrow>
          (case binary_tree g of
             None \<Rightarrow> None
           | Some tree \<Rightarrow>
               Some (Some (length tree),
                     g\<lparr>mallocs_left := heap1,
                       binary_tree := Some (tree @ [\<lparr>key = tid, regions = []\<rparr>]),
                       root := tsearch h tid (length tree)
                                 (tree @ [\<lparr>key = tid, regions = []\<rparr>]) (root g)\<rparr>)))"

definition internal_hl_find_thread_node :: "ulong \<Rightarrow> glob \<Rightarrow> (nat option) option" where
  "internal_hl_find_thread_node tid g =
     (case binary_tree g of None \<Rightarrow> None | Some tree \<Rightarrow> Some (tfind tid tree (root g)))"

text \<open>Reading and writing through a pointer to a thread node or to a region node.\<close>

definition thread_at :: "glob \<Rightarrow> nat \<Rightarrow> threads_t" where
  "thread_at g t = (case binary_tree g of Some tree \<Rightarrow> tree ! t)"

definition set_regions :: "nat \<Rightarrow> regions_t list \<Rightarrow> glob \<Rightarrow> glob" where
  "set_regions t rs g =
     g\<lparr>binary_tree := map_option (\<lambda>tree. tree[t := (tree ! t)\<lparr>regions := rs\<rparr>]) (binary_tree g)\<rparr>"

definition internal_hl_store_counters ::
  "hw \<Rightarrow> (nat \<Rightarrow> local_components_t) \<Rightarrow> long_long \<Rightarrow> ulong \<Rightarrow> string \<Rightarrow> region_type \<Rightarrow>
     glob \<Rightarrow> (int \<times> glob) option" where
  "internal_hl_store_counters h lc cycles tid rname reg_typ g =
     (case internal_hl_find_thread_node tid g of
        None \<Rightarrow> None
      | Some found \<Rightarrow>
          if found = None \<and> reg_typ \<noteq> REGION_BEGIN then Some (PAPI_EINVAL, g)
          else
            (case (case found of Some t \<Rightarrow> Some (Some t, g)
                   | None \<Rightarrow> internal_hl_insert_thread_node h tid g) of
               None \<Rightarrow> None
             | Some (None, g1) \<Rightarrow> Some (PAPI_ENOMEM, g1)
             | Some (Some current_thread_node, g1) \<Rightarrow>
                 (case internal_hl_find_region_node
                         (regions (thread_at g1 current_thread_node)) rname of
                    None \<Rightarrow>
                      if reg_typ = REGION_BEGIN then
                        (case internal_hl_insert_region_node g1
                                (regions (thread_at g1 current_thread_node)) rname of
                           (None, heap1) \<Rightarrow> Some (PAPI_ENOMEM, g1\<lparr>mallocs_left := heap1\<rparr>)
                         | (Some rs, heap1) \<Rightarrow>
                             (let g2 = set_regions current_thread_node rs
                                         (g1\<lparr>mallocs_left := heap1\<rparr>);
                                  (retval, node, heap2) =
                                     internal_hl_add_values_to_region g2 lc cycles (rs ! 0) reg_typ;
                                  g3 = set_regions current_thread_node (rs[0 := node])
                                         (g2\<lparr>mallocs_left := heap2\<rparr>)
                              in if retval \<noteq> PAPI_OK then Some (retval, g3)
                                 else Some (PAPI_OK, g3\<lparr>region_begin_cnt := region_begin_cnt g3 + 1\<rparr>)))
                      else if reg_typ = REGION_READ then
                        Some (PAPI_OK, verbose_fprintf g1
                          ''PAPI-HL Warning: Cannot find matching region for PAPI_hl_read(%s) for thread id=%lu.''
                          [S rname, U (PAPI_thread_id h)])
                      else
                        Some (PAPI_EINVAL, verbose_fprintf g1
                          ''PAPI-HL Warning: Cannot find matching region for PAPI_hl_region_end(%s) for thread id=%lu.''
                          [S rname, U (PAPI_thread_id h)])
                  | Some current_region_node \<Rightarrow>
                      (let rs = regions (thread_at g1 current_thread_node);
                           (retval, node, heap2) =
                              internal_hl_add_values_to_region g1 lc cycles
                                (rs ! current_region_node) reg_typ;
                           g3 = set_regions current_thread_node (rs[current_region_node := node])
                                  (g1\<lparr>mallocs_left := heap2\<rparr>)
                       in if retval \<noteq> PAPI_OK then Some (retval, g3)
                          else Some (PAPI_OK,
                            g3\<lparr>region_begin_cnt :=
                                 (if reg_typ = REGION_BEGIN then region_begin_cnt g3 + 1
                                  else region_begin_cnt g3),
                               region_end_cnt :=
                                 (if reg_typ = REGION_END then region_end_cnt g3 + 1
                                  else region_end_cnt g3)\<rparr>)))))"


subsection \<open>Reading the counters\<close>

text \<open>
  The loop of \<open>_internal_hl_read_counters\<close> over the components \<open>is\<close> that are left;
  \<open>n\<close> is \<open>num_of_components\<close>.
\<close>

fun read_counters_loop ::
  "hw \<Rightarrow> nat \<Rightarrow> nat list \<Rightarrow> (nat \<Rightarrow> local_components_t) \<times> long_long \<Rightarrow>
     int \<times> (nat \<Rightarrow> local_components_t) \<times> long_long" where
  "read_counters_loop h n [] (lc, cycles) = (PAPI_OK, lc, cycles)"
| "read_counters_loop h n (i # is) (lc, cycles) =
     (let (retval, vs, cycles1) =
            (if i < n - 1 then (fst (PAPI_read h i), snd (PAPI_read h i), cycles)
             else PAPI_read_ts h i);
          lc1 = lc(i := (lc i)\<lparr>lvalues := vs\<rparr>)
      in if retval \<noteq> PAPI_OK then (retval, lc1, cycles1)
         else read_counters_loop h n is (lc1, cycles1))"

definition internal_hl_read_counters :: "hw \<Rightarrow> glob \<Rightarrow> tls \<Rightarrow> (int \<times> tls) option" where
  "internal_hl_read_counters h g l =
     (if num_of_components g = 0 then Some (PAPI_OK, l)
      else
        (case local_components l of
           None \<Rightarrow> None
         | Some lc \<Rightarrow>
             (let (retval, lc1, cycles1) =
                    read_counters_loop h (num_of_components g) [0..<num_of_components g]
                      (lc, local_cycles l)
              in Some (retval, l\<lparr>local_components := Some lc1, local_cycles := cycles1\<rparr>))))"

subsection \<open>Cleaning up\<close>

text \<open>The body of the loop of \<open>_internal_hl_clean_up_local_data\<close> for component \<open>i\<close>.\<close>

definition destroy_local_event_set :: "hw \<Rightarrow> nat \<Rightarrow> glob \<Rightarrow> glob" where
  "destroy_local_event_set h i g0 =
     (let g1 = (if PAPI_stop h i \<noteq> PAPI_OK \<and> PAPI_stop h i \<noteq> - 9
                then verbose_fprintf g0 ''PAPI-HL Error: PAPI_stop failed: %d.''
                       [D (PAPI_stop h i)]
                else g0);
          g2 = (if PAPI_cleanup_eventset h \<noteq> PAPI_OK
                then verbose_fprintf g1 ''PAPI-HL Error: PAPI_cleanup_eventset failed: %d.''
                       [D (PAPI_cleanup_eventset h)]
                else g1)
      in if PAPI_destroy_eventset h \<noteq> PAPI_OK
         then verbose_fprintf g2 ''PAPI-HL Error: PAPI_destroy_eventset failed: %d.''
                [D (PAPI_destroy_eventset h)]
         else g2)"

definition internal_hl_clean_up_local_data :: "hw \<Rightarrow> tls \<times> glob \<Rightarrow> tls \<times> glob" where
  "internal_hl_clean_up_local_data h = (\<lambda>(l, g).
     case local_components l of
       None \<Rightarrow> (l\<lparr>local_state := PAPIHL_DEACTIVATED\<rparr>, g)
     | Some lc \<Rightarrow>
         (let g3 = fold (destroy_local_event_set h) [0..<num_of_components g] g
          in (l\<lparr>local_components := None, local_state := PAPIHL_DEACTIVATED\<rparr>,
              g3\<lparr>num_of_cleaned_threads := num_of_cleaned_threads g3 + 1\<rparr>)))"

text \<open>
  All thread nodes, their regions and read values are freed and removed from the tree;
  the requested event names and the output path are freed, and the pointers to them
  are left behind unusable. Freeing a name that was never set is the \<open>None\<close> case.
\<close>

definition internal_hl_clean_up_global_data :: "glob \<Rightarrow> glob option" where
  "internal_hl_clean_up_global_data g =
     (if list_all (\<lambda>i. requested_event_names g i \<noteq> None) [0..<num_of_requested_events g]
      then Some (g\<lparr>binary_tree := map_option (\<lambda>tree. []) (binary_tree g),
                   root := (if binary_tree g = None then root g else Leaf_t),
                   requested_event_names := (\<lambda>i. None),
                   absolute_output_file_path := None\<rparr>)
      else None)"

fun internal_hl_check_for_clean_thread_states_loop :: "32 word option list \<Rightarrow> int" where
  "internal_hl_check_for_clean_thread_states_loop [] = PAPI_OK"
| "internal_hl_check_for_clean_thread_states_loop (ESI # slots) =
     (case ESI of
        Some esi_state \<Rightarrow>
          if esi_state AND PAPI_RUNNING \<noteq> 0 then PAPI_EISRUN
          else internal_hl_check_for_clean_thread_states_loop slots
      | None \<Rightarrow> internal_hl_check_for_clean_thread_states_loop slots)"

definition internal_hl_check_for_clean_thread_states :: "hw \<Rightarrow> int" where
  "internal_hl_check_for_clean_thread_states h =
     internal_hl_check_for_clean_thread_states_loop (dataSlotArray h)"

definition shutdown_warning :: line where
  "shutdown_warning =
     (''PAPI-HL Warning: Could not call PAPI_shutdown() since some threads still have running event sets. Make sure to call PAPI_hl_cleanup_thread() at the end of all parallel regions and PAPI_hl_finalize() in the master thread!'',
      [])"

definition internal_hl_clean_up_all :: "hw \<Rightarrow> bool \<Rightarrow> tls \<times> glob \<Rightarrow> (tls \<times> glob) option" where
  "internal_hl_clean_up_all h deactivate = (\<lambda>(l, g).
     let g0 = g\<lparr>output_generated := True\<rparr>;
         (l1, g1) = (if local_state l = PAPIHL_ACTIVE
                     then internal_hl_clean_up_local_data h (l, g0) else (l, g0))
     in if state g1 = PAPIHL_ACTIVE then
          (case internal_hl_clean_up_global_data
                  (verbose_fprintf g1 ''PAPI-HL Info: Output generation is deactivated!'' []) of
             None \<Rightarrow> None
           | Some g2 \<Rightarrow>
               (let num_of_threads = int (length (snd (PAPI_list_threads h)));
                    g3 = (if internal_hl_check_for_clean_thread_states h = PAPI_OK \<and>
                             num_of_threads = num_of_cleaned_threads g2
                          then g2\<lparr>papi_shutdown_called := True, components_freed := True\<rparr>
                          else verbose_fprintf g2 (fst shutdown_warning) (snd shutdown_warning))
                in Some (l1, if deactivate then g3\<lparr>state := PAPIHL_DEACTIVATED\<rparr> else g3)))
        else Some (l1, g1))"

text \<open>
  \<open>_local_components\<close> as the event loops of \<open>_internal_hl_add_values_to_region\<close> read
  it. After \<open>_internal_hl_read_counters\<close> has returned it can be NULL only if there is
  no component, and then no loop reads it.
\<close>

definition deref_local_components :: "tls \<Rightarrow> nat \<Rightarrow> local_components_t" where
  "deref_local_components l =
     (case local_components l of
        Some lc \<Rightarrow> lc
      | None \<Rightarrow> (\<lambda>i. \<lparr>lEventSet = PAPI_NULL, lvalues = (\<lambda>j. 0)\<rparr>))"

definition internal_hl_read_and_store_counters ::
  "hw \<Rightarrow> string \<Rightarrow> region_type \<Rightarrow> tls \<times> glob \<Rightarrow> (int \<times> tls \<times> glob) option" where
  "internal_hl_read_and_store_counters h rname reg_typ = (\<lambda>(l, g).
     case internal_hl_read_counters h g l of
       None \<Rightarrow> None
     | Some (retval, l1) \<Rightarrow>
         if retval \<noteq> PAPI_OK then
           map_option (\<lambda>s. (retval, s))
             (internal_hl_clean_up_all h True
                (l1, verbose_fprintf g ''PAPI-HL Error: Could not read counters for thread %lu.''
                       [U (PAPI_thread_id h)]))
         else
           (case internal_hl_store_counters h (deref_local_components l1) (local_cycles l1)
                   (PAPI_thread_id h) rname reg_typ g of
              None \<Rightarrow> None
            | Some (retval1, g1) \<Rightarrow>
                if retval1 \<noteq> PAPI_OK then
                  map_option (\<lambda>s. (retval1, s))
                    (internal_hl_clean_up_all h True
                       (l1, verbose_fprintf
                              (verbose_fprintf g1
                                 ''PAPI-HL Error: Could not store counters for thread %lu.''
                                 [U (PAPI_thread_id h)])
                              ''PAPI-HL Advice: Check if your regions are matching.'' []))
                else Some (PAPI_OK, l1, g1)))"

definition internal_hl_create_global_binary_tree :: "glob \<Rightarrow> int \<times> glob" where
  "internal_hl_create_global_binary_tree g =
     (case malloc (mallocs_left g) of
        (False, heap1) \<Rightarrow> (PAPI_ENOMEM, g\<lparr>mallocs_left := heap1, binary_tree := None\<rparr>)
      | (True, heap1) \<Rightarrow>
          (case malloc heap1 of
             (False, heap2) \<Rightarrow>
               (PAPI_ENOMEM, g\<lparr>mallocs_left := heap2, binary_tree := Some [], root := Leaf_t\<rparr>)
           | (True, heap2) \<Rightarrow>
               (PAPI_OK, g\<lparr>mallocs_left := heap2, binary_tree := Some [], root := Leaf_t\<rparr>)))"


subsection \<open>Resolving the events\<close>

definition internal_hl_checkCounter :: "hw \<Rightarrow> string \<Rightarrow> int" where
  "internal_hl_checkCounter h counter =
     (if fst (PAPI_create_eventset h) \<noteq> PAPI_OK then fst (PAPI_create_eventset h)
      else if fst (PAPI_event_name_to_code h counter) \<noteq> PAPI_OK
        then fst (PAPI_event_name_to_code h counter)
      else if PAPI_add_event h [] (snd (PAPI_event_name_to_code h counter)) \<noteq> PAPI_OK
        then PAPI_add_event h [] (snd (PAPI_event_name_to_code h counter))
      else if PAPI_cleanup_eventset h \<noteq> PAPI_OK then PAPI_cleanup_eventset h
      else if PAPI_destroy_eventset h \<noteq> PAPI_OK then PAPI_destroy_eventset h
      else PAPI_OK)"

fun internal_hl_remove_spaces :: "string \<Rightarrow> string" where
  "internal_hl_remove_spaces [] = []"
| "internal_hl_remove_spaces (c # str) =
     (if c \<noteq> CHR '' '' then c # internal_hl_remove_spaces str
      else internal_hl_remove_spaces str)"

definition default_events :: "string list" where
  "default_events =
     [''perf::TASK-CLOCK'', ''PAPI_TOT_INS'', ''PAPI_TOT_CYC'', ''PAPI_FP_INS'', ''PAPI_FP_OPS'']"

text \<open>The loop over the default events \<open>ds\<close> that are left.\<close>

fun determine_default_events_loop :: "hw \<Rightarrow> string list \<Rightarrow> glob \<Rightarrow> int \<times> glob" where
  "determine_default_events_loop h [] g = (PAPI_OK, g)"
| "determine_default_events_loop h (d # ds) g =
     (if internal_hl_checkCounter h d = PAPI_OK then
        (case malloc (mallocs_left g) of
           (False, heap1) \<Rightarrow>
             (PAPI_ENOMEM,
              g\<lparr>mallocs_left := heap1,
                requested_event_names := (requested_event_names g)(num_of_requested_events g := None),
                num_of_requested_events := num_of_requested_events g + 1\<rparr>)
         | (True, heap1) \<Rightarrow>
             determine_default_events_loop h ds
               (g\<lparr>mallocs_left := heap1,
                  requested_event_names := (requested_event_names g)(num_of_requested_events g := Some d),
                  num_of_requested_events := num_of_requested_events g + 1\<rparr>))
      else determine_default_events_loop h ds g)"

definition internal_hl_determine_default_events :: "hw \<Rightarrow> glob \<Rightarrow> int \<times> glob" where
  "internal_hl_determine_default_events h g =
     (case malloc (mallocs_left g) of
        (False, heap1) \<Rightarrow>
          (PAPI_ENOMEM, g\<lparr>mallocs_left := heap1, requested_event_names := (\<lambda>i. None)\<rparr>)
      | (True, heap1) \<Rightarrow>
          determine_default_events_loop h default_events
            (g\<lparr>mallocs_left := heap1, requested_event_names := (\<lambda>i. None)\<rparr>))"

text \<open>
  \<open>strtok\<close> with one separator character: the tokens are the maximal runs of other
  characters; \<open>tok\<close> is the token being read.
\<close>

fun strtok :: "char \<Rightarrow> string \<Rightarrow> string \<Rightarrow> string list" where
  "strtok sep tok [] = (if tok = [] then [] else [tok])"
| "strtok sep tok (c # cs) =
     (if c = sep then (if tok = [] then strtok sep [] cs else tok # strtok sep [] cs)
      else strtok sep (tok @ [c]) cs)"

text \<open>The loop \<open>while ( token )\<close>; the accumulator holds \<open>req_event_index\<close>.\<close>

fun read_user_events_loop :: "nat \<Rightarrow> string list \<Rightarrow> nat \<Rightarrow> glob \<Rightarrow> int \<times> glob" where
  "read_user_events_loop num_of_req_events [] req_event_index g = (PAPI_OK, g)"
| "read_user_events_loop num_of_req_events (token # tokens) req_event_index g =
     (if req_event_index \<ge> num_of_req_events then (PAPI_EINVAL, g)
      else
        (case malloc (mallocs_left g) of
           (False, heap1) \<Rightarrow>
             (PAPI_ENOMEM,
              g\<lparr>mallocs_left := heap1,
                requested_event_names := (requested_event_names g)(req_event_index := None)\<rparr>)
         | (True, heap1) \<Rightarrow>
             read_user_events_loop num_of_req_events tokens (req_event_index + 1)
               (g\<lparr>mallocs_left := heap1,
                  requested_event_names := (requested_event_names g)
                    (req_event_index := Some (internal_hl_remove_spaces token))\<rparr>)))"

definition internal_hl_read_user_events :: "string \<Rightarrow> glob \<Rightarrow> int \<times> glob" where
  "internal_hl_read_user_events user_events g =
     (case malloc (mallocs_left g) of
        (False, heap0) \<Rightarrow> (PAPI_ENOMEM, g\<lparr>mallocs_left := heap0\<rparr>)
      | (True, heap0) \<Rightarrow>
          (let g0 = g\<lparr>mallocs_left := heap0\<rparr>;
               num_of_req_events =
                 (if length user_events > 0
                  then 1 + length (filter (\<lambda>c. c = CHR '','') user_events) else 1);
               (retval, g2) =
                 (if length user_events > 0 then
                    (case malloc (mallocs_left g0) of
                       (False, heap1) \<Rightarrow>
                         (PAPI_ENOMEM,
                          g0\<lparr>mallocs_left := heap1, requested_event_names := (\<lambda>i. None)\<rparr>)
                     | (True, heap1) \<Rightarrow>
                         read_user_events_loop num_of_req_events
                           (strtok CHR '','' [] user_events) 0
                           (g0\<lparr>mallocs_left := heap1, requested_event_names := (\<lambda>i. None)\<rparr>))
                  else (PAPI_OK, g0))
           in if retval \<noteq> PAPI_OK then (retval, g2)
              else
                (let g3 = g2\<lparr>num_of_requested_events := num_of_req_events\<rparr>
                 in if num_of_requested_events g3 = 0 then (PAPI_EINVAL, g3)
                    else (PAPI_OK, g3))))"

text \<open>
  A pointer to a component is its index \<open>c\<close> in \<open>components\<close>. \<open>PAPI_MULTIPLEX\<close> only
  adds diagnostics here.
\<close>

definition multiplex_diagnostics :: "hw \<Rightarrow> int \<Rightarrow> glob \<Rightarrow> glob" where
  "multiplex_diagnostics h cid g =
     (if getenv h ''PAPI_MULTIPLEX'' \<noteq> None \<and> cid = 0 then
        (if PAPI_assign_eventset_component h \<noteq> PAPI_OK
         then verbose_fprintf g ''PAPI-HL Error: PAPI_assign_eventset_component failed.'' []
         else if PAPI_get_multiplex h = False \<and> PAPI_set_multiplex h \<noteq> PAPI_OK
           then verbose_fprintf g ''PAPI-HL Error: PAPI_set_multiplex failed.'' []
         else g)
      else g)"

definition set_component :: "nat \<Rightarrow> components_t \<Rightarrow> glob \<Rightarrow> glob" where
  "set_component c cmp g = g\<lparr>components := (components g)(c := cmp)\<rparr>"

definition internal_hl_new_component :: "hw \<Rightarrow> int \<Rightarrow> nat \<Rightarrow> glob \<Rightarrow> int \<times> glob" where
  "internal_hl_new_component h cid c g =
     (let g0 = set_component c ((components g c)\<lparr>EventSet := PAPI_NULL\<rparr>) g in
      if fst (PAPI_create_eventset h) \<noteq> PAPI_OK then
        (fst (PAPI_create_eventset h),
         verbose_fprintf g0 ''PAPI-HL Error: Cannot create EventSet for component %d.'' [D cid])
      else
        (let g1 = multiplex_diagnostics h cid
                    (set_component c
                       ((components g0 c)\<lparr>EventSet := snd (PAPI_create_eventset h),
                          component_id := cid, num_of_events := 0,
                          max_num_of_events := PAPIHL_NUM_OF_EVENTS_PER_COMPONENT\<rparr>) g0)
         in case malloc (mallocs_left g1) of
              (False, heap1) \<Rightarrow> (PAPI_ENOMEM, g1\<lparr>mallocs_left := heap1\<rparr>)
            | (True, heap1) \<Rightarrow>
                (case malloc heap1 of
                   (False, heap2) \<Rightarrow> (PAPI_ENOMEM, g1\<lparr>mallocs_left := heap2\<rparr>)
                 | (True, heap2) \<Rightarrow>
                     (case malloc heap2 of
                        (False, heap3) \<Rightarrow> (PAPI_ENOMEM, g1\<lparr>mallocs_left := heap3\<rparr>)
                      | (True, heap3) \<Rightarrow>
                          (PAPI_OK, g1\<lparr>mallocs_left := heap3,
                                       num_of_components := num_of_components g1 + 1\<rparr>)))))"

text \<open>Three \<open>realloc\<close> calls in a row: \<open>False\<close> when one of them fails.\<close>

definition realloc3 :: "nat \<Rightarrow> bool \<times> nat" where
  "realloc3 heap =
     (case malloc heap of
        (False, heap1) \<Rightarrow> (False, heap1)
      | (True, heap1) \<Rightarrow>
          (case malloc heap1 of
             (False, heap2) \<Rightarrow> (False, heap2)
           | (True, heap2) \<Rightarrow> malloc heap2))"

definition internal_hl_add_event_to_component ::
  "hw \<Rightarrow> string \<Rightarrow> int \<Rightarrow> int \<Rightarrow> nat \<Rightarrow> glob \<Rightarrow> int \<times> glob" where
  "internal_hl_add_event_to_component h event_name event event_type c g =
     (let cmp = components g c;
          (ok, cmp1, heap1) =
            (if num_of_events cmp = max_num_of_events cmp then
               (fst (realloc3 (mallocs_left g)),
                cmp\<lparr>max_num_of_events := max_num_of_events cmp * 2\<rparr>,
                snd (realloc3 (mallocs_left g)))
             else (True, cmp, mallocs_left g));
          g1 = set_component c cmp1 (g\<lparr>mallocs_left := heap1\<rparr>)
      in if \<not> ok then (PAPI_ENOMEM, g1)
         else if PAPI_add_event h (map (event_codes cmp1) [0..<num_of_events cmp1]) event
                   \<noteq> PAPI_OK then
           (PAPI_EINVAL,
            verbose_fprintf
              (verbose_fprintf
                 (fold (\<lambda>i g0. verbose_fprintf g0 ''  %s'' [S (event_names cmp1 i)])
                    [0..<num_of_events cmp1]
                    (verbose_fprintf
                       (verbose_fprintf g1 ''PAPI-HL Warning: Cannot add %s to component %s.''
                          [S event_name, S (PAPI_get_component_info_name h (component_id cmp1))])
                       ''The following event combination is not supported:'' []))
                 ''  %s'' [S event_name])
              ''Advice: Use papi_event_chooser to obtain an appropriate event set for this component or set PAPI_MULTIPLEX=1.''
              [])
         else
           (PAPI_OK,
            (set_component c
               (cmp1\<lparr>event_names := (event_names cmp1)(num_of_events cmp1 := event_name),
                  event_codes := (event_codes cmp1)(num_of_events cmp1 := event),
                  event_types := (event_types cmp1)(num_of_events cmp1 := event_type),
                  num_of_events := num_of_events cmp1 + 1\<rparr>) g1)
            \<lparr>total_num_events := total_num_events g1 + 1\<rparr>))"

text \<open>
  The search loop for the component of an event: \<open>component_exists\<close> and \<open>comp_index\<close>
  as the loop leaves them, starting at component \<open>j\<close>.
\<close>

function find_component :: "glob \<Rightarrow> int \<Rightarrow> nat \<Rightarrow> bool \<times> nat \<Rightarrow> bool \<times> nat" where
  "find_component g cid j (component_exists, comp_index) =
     (if j < num_of_components g then
        (if component_id (components g j) = cid then (True, j)
         else find_component g cid (j + 1) (False, comp_index))
      else (component_exists, comp_index))"
  by pat_completeness auto
termination
  by (relation "measure (\<lambda>(g, cid, j, s). num_of_components g - j)") auto

declare find_component.simps [simp del]

text \<open>
  First part of \<open>_internal_hl_create_components\<close>: the loop over the requested events
  \<open>is\<close> that are left. The local variables \<open>event_type\<close>, \<open>component_exists\<close> and
  \<open>comp_index\<close> live across the iterations. \<open>Some (Some retval, ...)\<close> is a
  \<open>return retval\<close> from inside the loop.
\<close>

fun create_components_loop ::
  "hw \<Rightarrow> nat list \<Rightarrow> int \<times> bool \<times> nat \<Rightarrow> glob \<Rightarrow> (int option \<times> glob) option" where
  "create_components_loop h [] (event_type, component_exists, comp_index) g = Some (None, g)"
| "create_components_loop h (i # is) (event_type, component_exists, comp_index) g =
     (case requested_event_names g i of
        None \<Rightarrow> None
      | Some name0 \<Rightarrow>
          (let ret = dropWhile (\<lambda>c. c \<noteq> CHR ''='') name0;
               event_type1 = (if ret \<noteq> [] then (if ret = ''=instant'' then 1 else 0)
                              else event_type);
               name = (if ret \<noteq> [] \<and> (ret = ''=instant'' \<or> ret = ''=delta'')
                       then takeWhile (\<lambda>c. c \<noteq> CHR ''='') name0 else name0);
               g0 = g\<lparr>requested_event_names := (requested_event_names g)(i := Some name)\<rparr>
           in if internal_hl_checkCounter h name \<noteq> PAPI_OK then
                create_components_loop h is (event_type1, component_exists, comp_index)
                  (verbose_fprintf g0
                     ''PAPI-HL Warning: %s does not exist or is not supported on this machine.''
                     [S name])
              else if fst (PAPI_event_name_to_code h name) \<noteq> PAPI_OK then
                Some (Some (fst (PAPI_event_name_to_code h name)), g0)
              else
                (let event = snd (PAPI_event_name_to_code h name);
                     cid = PAPI_COMPONENT_INDEX h event;
                     (component_exists1, comp_index1) =
                        find_component g0 cid 0 (component_exists, comp_index);
                     (retval, comp_index2, g1) =
                        (if component_exists1 = False then
                           (let (ok, g01) =
                                  (if num_of_components g0 = max_num_of_components g0 then
                                     (fst (malloc (mallocs_left g0)),
                                      g0\<lparr>max_num_of_components := max_num_of_components g0 * 2,
                                         mallocs_left := snd (malloc (mallocs_left g0))\<rparr>)
                                   else (True, g0))
                            in if \<not> ok then (PAPI_ENOMEM, comp_index1, g01)
                               else (fst (internal_hl_new_component h cid (num_of_components g01) g01),
                                     num_of_components g01,
                                     snd (internal_hl_new_component h cid (num_of_components g01) g01)))
                         else (PAPI_OK, comp_index1, g0))
                 in if retval \<noteq> PAPI_OK then Some (Some retval, g1)
                    else
                      (let (retval1, g2) =
                             internal_hl_add_event_to_component h name event event_type1
                               comp_index2 g1
                       in if retval1 = PAPI_ENOMEM then Some (Some retval1, g2)
                          else create_components_loop h is
                                 (event_type1, component_exists1, comp_index2) g2))))"

text \<open>Second part: the loop that destroys the event sets of the components \<open>is\<close>.\<close>

fun destroy_event_sets_loop :: "hw \<Rightarrow> nat list \<Rightarrow> glob \<Rightarrow> int \<times> glob" where
  "destroy_event_sets_loop h [] g = (PAPI_OK, g)"
| "destroy_event_sets_loop h (i # is) g =
     (if PAPI_cleanup_eventset h \<noteq> PAPI_OK then (PAPI_cleanup_eventset h, g)
      else if PAPI_destroy_eventset h \<noteq> PAPI_OK then (PAPI_destroy_eventset h, g)
      else destroy_event_sets_loop h is
             (fold (\<lambda>j g0. verbose_fprintf g0 ''  %s'' [S (event_names (components g0 i) j)])
                [0..<num_of_events (components g i)]
                (set_component i ((components g i)\<lparr>EventSet := PAPI_NULL\<rparr>) g)))"

definition internal_hl_create_components :: "hw \<Rightarrow> glob \<Rightarrow> (int \<times> glob) option" where
  "internal_hl_create_components h g =
     (case malloc (mallocs_left g) of
        (False, heap1) \<Rightarrow> Some (PAPI_ENOMEM, g\<lparr>mallocs_left := heap1\<rparr>)
      | (True, heap1) \<Rightarrow>
          (case create_components_loop h [0..<num_of_requested_events g] (0, False, 0)
                  (g\<lparr>mallocs_left := heap1\<rparr>) of
             None \<Rightarrow> None
           | Some (Some retval, g1) \<Rightarrow> Some (retval, g1)
           | Some (None, g1) \<Rightarrow>
               (let g2 = (if num_of_components g1 > 0
                          then verbose_fprintf g1 ''PAPI-HL Info: Using the following events:'' []
                          else g1);
                    (retval, g3) = destroy_event_sets_loop h [0..<num_of_components g2] g2
                in if retval \<noteq> PAPI_OK then Some (retval, g3)
                   else if num_of_components g3 = 0 then Some (PAPI_EINVAL, g3)
                   else Some (PAPI_OK, g3))))"


definition internal_hl_read_events :: "hw \<Rightarrow> string option \<Rightarrow> glob \<Rightarrow> (int \<times> glob) option" where
  "internal_hl_read_events h events g =
     (let (retval0, g1) =
            (case events of
               Some ev \<Rightarrow>
                 (let (r, ga) = internal_hl_read_user_events ev g
                  in if r \<noteq> PAPI_OK then internal_hl_determine_default_events h ga
                     else (PAPI_OK, ga))
             | None \<Rightarrow>
                 (case getenv h ''PAPI_EVENTS'' of
                    Some user_events_from_env \<Rightarrow>
                      (case malloc (mallocs_left g) of
                         (False, heap1) \<Rightarrow> (PAPI_ENOMEM, g\<lparr>mallocs_left := heap1\<rparr>)
                       | (True, heap1) \<Rightarrow>
                           (let (r, ga) = internal_hl_read_user_events user_events_from_env
                                            (g\<lparr>mallocs_left := heap1\<rparr>)
                            in if r \<noteq> PAPI_OK then internal_hl_determine_default_events h ga
                               else (PAPI_OK, ga)))
                  | None \<Rightarrow> internal_hl_determine_default_events h g))
      in if retval0 \<noteq> PAPI_OK then Some (retval0, g1)
         else
           (case internal_hl_create_components h g1 of
              None \<Rightarrow> None
            | Some (retval1, g2) \<Rightarrow>
                if retval1 \<noteq> PAPI_OK then
                  (let g3 = verbose_fprintf g2
                              ''PAPI-HL Warning: All requested events do not work, using default.'' []
                   in if \<not> list_all (\<lambda>i. requested_event_names g3 i \<noteq> None)
                               [0..<num_of_requested_events g3] then None
                      else
                        (let (retval2, g4) = internal_hl_determine_default_events h
                               (g3\<lparr>requested_event_names := (\<lambda>i. None),
                                   num_of_requested_events := 0\<rparr>)
                         in if retval2 \<noteq> PAPI_OK then Some (retval2, g4)
                            else
                              (case internal_hl_create_components h g4 of
                                 None \<Rightarrow> None
                               | Some (retval3, g5) \<Rightarrow>
                                   if retval3 \<noteq> PAPI_OK then Some (retval3, g5)
                                   else Some (PAPI_OK, g5\<lparr>events_determined := True\<rparr>))))
                else Some (PAPI_OK, g2\<lparr>events_determined := True\<rparr>)))"

subsection \<open>The event sets of a thread\<close>

fun add_events_loop :: "hw \<Rightarrow> components_t \<Rightarrow> nat list \<Rightarrow> int" where
  "add_events_loop h c [] = PAPI_OK"
| "add_events_loop h c (j # js) =
     (if PAPI_add_event h (map (event_codes c) [0..<j]) (event_codes c j) \<noteq> PAPI_OK
      then PAPI_add_event h (map (event_codes c) [0..<j]) (event_codes c j)
      else add_events_loop h c js)"

fun create_event_sets_loop ::
  "hw \<Rightarrow> nat list \<Rightarrow> (nat \<Rightarrow> local_components_t) \<Rightarrow> glob \<Rightarrow>
     int \<times> (nat \<Rightarrow> local_components_t) \<times> glob" where
  "create_event_sets_loop h [] lc g = (PAPI_OK, lc, g)"
| "create_event_sets_loop h (i # is) lc g =
     (if fst (PAPI_create_eventset h) \<noteq> PAPI_OK then
        (fst (PAPI_create_eventset h), lc(i := (lc i)\<lparr>lEventSet := PAPI_NULL\<rparr>), g)
      else
        (let lc1 = lc(i := (lc i)\<lparr>lEventSet := snd (PAPI_create_eventset h)\<rparr>);
             g1 = multiplex_diagnostics h (component_id (components g i)) g;
             retval = add_events_loop h (components g i) [0..<num_of_events (components g i)]
         in if retval \<noteq> PAPI_OK then (retval, lc1, g1)
            else
              (case malloc (mallocs_left g1) of
                 (False, heap1) \<Rightarrow> (PAPI_ENOMEM, lc1, g1\<lparr>mallocs_left := heap1\<rparr>)
               | (True, heap1) \<Rightarrow>
                   create_event_sets_loop h is lc1 (g1\<lparr>mallocs_left := heap1\<rparr>))))"

text \<open>
  The second loop starts the event sets. The value returned for a failed warm-up read
  is that of the comparison \<open>PAPI_read_ts(...) != PAPI_OK\<close>, which is 1.
\<close>

fun start_event_sets_loop ::
  "hw \<Rightarrow> nat list \<Rightarrow> (nat \<Rightarrow> local_components_t) \<Rightarrow> int \<times> (nat \<Rightarrow> local_components_t)" where
  "start_event_sets_loop h [] lc = (PAPI_OK, lc)"
| "start_event_sets_loop h (i # is) lc =
     (if PAPI_start h i \<noteq> PAPI_OK then (PAPI_start h i, lc)
      else
        (let lc1 = lc(i := (lc i)\<lparr>lvalues := fst (snd (PAPI_read_ts h i))\<rparr>)
         in if fst (PAPI_read_ts h i) \<noteq> PAPI_OK then (1, lc1)
            else start_event_sets_loop h is lc1))"

definition internal_hl_create_event_sets :: "hw \<Rightarrow> tls \<times> glob \<Rightarrow> int \<times> tls \<times> glob" where
  "internal_hl_create_event_sets h = (\<lambda>(l, g).
     if state g = PAPIHL_ACTIVE then
       (case malloc (mallocs_left g) of
          (False, heap1) \<Rightarrow> (PAPI_ENOMEM, l\<lparr>local_components := None\<rparr>, g\<lparr>mallocs_left := heap1\<rparr>)
        | (True, heap1) \<Rightarrow>
            (let (retval, lc1, g1) =
                   create_event_sets_loop h [0..<num_of_components g]
                     (\<lambda>i. \<lparr>lEventSet = PAPI_NULL, lvalues = (\<lambda>j. 0)\<rparr>)
                     (g\<lparr>mallocs_left := heap1\<rparr>)
             in if retval \<noteq> PAPI_OK then (retval, l\<lparr>local_components := Some lc1\<rparr>, g1)
                else
                  (let (retval1, lc2) = start_event_sets_loop h [0..<num_of_components g1] lc1
                   in (retval1, l\<lparr>local_components := Some lc2\<rparr>, g1))))
     else (PAPI_EMISC, l, g))"

subsection \<open>Initialisation\<close>

fun dec :: "nat \<Rightarrow> string" where
  "dec n = (if n < 10 then [char_of (48 + n)] else dec (n div 10) @ [char_of (48 + n mod 10)])"

declare dec.simps [simp del]

text \<open>
  The directories themselves are outside the model: \<open>stat_is_dir\<close>, \<open>stat_mtime\<close>,
  \<open>time_now\<close> and \<open>rename_ok\<close> are what \<open>stat\<close>, \<open>time\<close> and \<open>rename\<close> answer.
\<close>

definition internal_hl_determine_output_path :: "hw \<Rightarrow> glob \<Rightarrow> int \<times> glob" where
  "internal_hl_determine_output_path h g =
     (case malloc (mallocs_left g) of
        (False, heap1) \<Rightarrow> (PAPI_ENOMEM, g\<lparr>mallocs_left := heap1\<rparr>)
      | (True, heap1) \<Rightarrow>
          (let output_prefix = (case getenv h ''PAPI_OUTPUT_DIRECTORY'' of
                                  Some d \<Rightarrow> d | None \<Rightarrow> getcwd h)
           in case malloc heap1 of
                (False, heap2) \<Rightarrow>
                  (PAPI_ENOMEM, g\<lparr>mallocs_left := heap2, absolute_output_file_path := None\<rparr>)
              | (True, heap2) \<Rightarrow>
                  (let g1 = g\<lparr>mallocs_left := heap2,
                              absolute_output_file_path := Some
                                (if output_counter g > 0
                                 then output_prefix @ ''/papi_'' @ dec (nat (output_counter g))
                                 else output_prefix @ ''/papi'')\<rparr>
                   in if stat_is_dir h then
                        (case malloc (mallocs_left g1) of
                           (False, heap3) \<Rightarrow> (PAPI_ENOMEM, g1\<lparr>mallocs_left := heap3\<rparr>)
                         | (True, heap3) \<Rightarrow>
                             (let g2 = g1\<lparr>mallocs_left := heap3\<rparr>;
                                  g3 = (if stat_mtime h < time_now h \<and> \<not> rename_ok h then
                                          verbose_fprintf
                                            (verbose_fprintf g2
                                               ''PAPI-HL Warning: Cannot rename old measurement directory.'' [])
                                            ''If you use MPI, another process may have already renamed the directory.'' []
                                        else g2)
                              in (PAPI_OK, g3\<lparr>output_counter := output_counter g3 + 1\<rparr>)))
                      else (PAPI_OK, g1\<lparr>output_counter := output_counter g1 + 1\<rparr>))))"

text \<open>The registration of \<open>_internal_PAPI_hl_print_output\<close> with \<open>atexit\<close> is not recorded.\<close>

definition internal_hl_library_init :: "hw \<Rightarrow> glob \<Rightarrow> glob" where
  "internal_hl_library_init h g =
     (let g1 = (if getenv h ''PAPI_NO_WARNING'' \<noteq> None then g\<lparr>verbosity := 0\<rparr> else g);
          g2 = (if \<not> PAPI_library_init_ok h
                then verbose_fprintf g1 ''PAPI-HL Error: PAPI_library_init failed!'' [] else g1);
          g3 = (if PAPI_thread_init h = PAPI_OK then
                  (let (retval, ga) = internal_hl_determine_output_path h g2
                   in if retval \<noteq> PAPI_OK then
                        verbose_fprintf
                          ((verbose_fprintf ga
                              ''PAPI-HL Error: _internal_hl_determine_output_path failed!'' [])
                           \<lparr>state := PAPIHL_DEACTIVATED\<rparr>)
                          ''PAPI-HL Error: PAPI could not be initiated!'' []
                      else (verbose_fprintf ga ''PAPI-HL Info: PAPI has been initiated!'' [])
                           \<lparr>master_thread_id := PAPI_thread_id h\<rparr>)
                else
                  verbose_fprintf
                    ((verbose_fprintf g2 ''PAPI-HL Error: PAPI_thread_init failed!'' [])
                     \<lparr>state := PAPIHL_DEACTIVATED\<rparr>)
                    ''PAPI-HL Error: PAPI could not be initiated!'' []);
          g4 = (if getenv h ''PAPI_MULTIPLEX'' \<noteq> None then
                  (if PAPI_multiplex_init h = PAPI_ENOSUPP
                   then verbose_fprintf g3 ''PAPI-HL Info: Multiplex is not supported!'' []
                   else if PAPI_multiplex_init h \<noteq> PAPI_OK
                     then verbose_fprintf g3 ''PAPI-HL Error: PAPI_multiplex_init failed!'' []
                   else verbose_fprintf g3 ''PAPI-HL Info: Multiplex has been initiated!'' [])
                else g3)
      in g4\<lparr>hl_initiated := True\<rparr>)"

text \<open>
  \<open>pthread_once\<close> runs the initialisation unless it has run it before. With calls
  executed one after the other the wait loop that follows changes nothing.
\<close>

definition internal_hl_onetime_library_init :: "hw \<Rightarrow> glob \<Rightarrow> glob" where
  "internal_hl_onetime_library_init h g =
     (if have_pthread_once h then
        (if library_is_initialized g then g
         else internal_hl_library_init h (g\<lparr>library_is_initialized := True\<rparr>))
      else internal_hl_library_init h g)"

definition internal_PAPI_hl_init :: "hw \<Rightarrow> glob \<Rightarrow> int \<times> glob" where
  "internal_PAPI_hl_init h g =
     (if state g = PAPIHL_ACTIVE then
        (if hl_initiated g = False \<and> hl_finalized g = False then
           (let g1 = internal_hl_onetime_library_init h g
            in if state g1 = PAPIHL_DEACTIVATED then (PAPI_EMISC, g1) else (PAPI_OK, g1))
         else (PAPI_ENOINIT, g))
      else (PAPI_EMISC, g))"

definition internal_PAPI_hl_cleanup_thread :: "hw \<Rightarrow> tls \<times> glob \<Rightarrow> int \<times> tls \<times> glob" where
  "internal_PAPI_hl_cleanup_thread h = (\<lambda>(l, g).
     if state g = PAPIHL_ACTIVE \<and> hl_initiated g = True \<and> local_state l = PAPIHL_ACTIVE then
       (if master_thread_id g \<noteq> PAPI_thread_id h
        then (PAPI_OK, internal_hl_clean_up_local_data h (l, g))
        else (PAPI_OK, l, g))
     else (PAPI_EMISC, l, g))"

definition internal_PAPI_hl_finalize :: "hw \<Rightarrow> tls \<times> glob \<Rightarrow> (int \<times> tls \<times> glob) option" where
  "internal_PAPI_hl_finalize h = (\<lambda>(l, g).
     if state g = PAPIHL_ACTIVE \<and> hl_initiated g = True then
       map_option (\<lambda>s. (PAPI_OK, s)) (internal_hl_clean_up_all h True (l, g))
     else Some (PAPI_EMISC, l, g))"

text \<open>
  \<open>Some (Some retval, g)\<close> is a \<open>return retval\<close> from inside the locked part. The second
  test of \<open>events_determined\<close> under the lock repeats the first one.
\<close>

definition internal_PAPI_hl_set_events :: "hw \<Rightarrow> string option \<Rightarrow> glob \<Rightarrow> (int \<times> glob) option" where
  "internal_PAPI_hl_set_events h events g =
     (if state g = PAPIHL_ACTIVE then
        (case (if hl_initiated g = True \<and> events_determined g = False then
                 (if events_determined g = False \<and> state g = PAPIHL_ACTIVE then
                    (case internal_hl_read_events h events g of
                       None \<Rightarrow> None
                     | Some (retval, g1) \<Rightarrow>
                         if retval \<noteq> PAPI_OK then
                           map_option (\<lambda>g2. (Some retval, g2))
                             (internal_hl_clean_up_global_data (g1\<lparr>state := PAPIHL_DEACTIVATED\<rparr>))
                         else
                           (let (retval1, g2) = internal_hl_create_global_binary_tree g1
                            in if retval1 \<noteq> PAPI_OK then
                                 map_option (\<lambda>g3. (Some retval1, g3))
                                   (internal_hl_clean_up_global_data
                                      (g2\<lparr>state := PAPIHL_DEACTIVATED\<rparr>))
                               else Some (None, g2)))
                  else Some (None, g))
               else Some (None, g)) of
           None \<Rightarrow> None
         | Some (Some retval, g1) \<Rightarrow> Some (retval, g1)
         | Some (None, g1) \<Rightarrow>
             if state g1 = PAPIHL_DEACTIVATED then Some (PAPI_EMISC, g1)
             else Some (PAPI_OK, g1))
      else Some (PAPI_EMISC, g))"


subsection \<open>Generating the output\<close>

definition internal_hl_mkdir :: "hw \<Rightarrow> nat \<Rightarrow> int \<times> nat" where
  "internal_hl_mkdir h heap =
     (case malloc heap of
        (False, heap1) \<Rightarrow> (PAPI_ENOMEM, heap1)
      | (True, heap1) \<Rightarrow> (if mkdir_ok h then PAPI_OK else PAPI_ESYS, heap1))"

definition internal_hl_determine_rank :: "hw \<Rightarrow> int" where
  "internal_hl_determine_rank h =
     (case getenv h ''OMPI_COMM_WORLD_RANK'' of
        Some v \<Rightarrow> atoi h v
      | None \<Rightarrow>
          (case getenv h ''ALPS_APP_PE'' of
             Some v \<Rightarrow> atoi h v
           | None \<Rightarrow>
               (case getenv h ''PMI_RANK'' of
                  Some v \<Rightarrow> atoi h v
                | None \<Rightarrow>
                    (case getenv h ''SLURM_PROCID'' of
                       Some v \<Rightarrow> atoi h v
                     | None \<Rightarrow> - 1))))"

text \<open>
  The read values of one event as they are printed: the walk starts at the last node of
  the chain and follows \<open>prev\<close>; \<open>read_cnt\<close> numbers the nodes it passes.
\<close>

fun json_read_values :: "nat \<Rightarrow> long_long list \<Rightarrow> (nat \<times> long_long) list" where
  "json_read_values read_cnt [] = []"
| "json_read_values read_cnt (v # towards_head) =
     (read_cnt, v) # json_read_values (read_cnt + 1) towards_head"

text \<open>
  \<open>all_event_names\<close> is allocated without a check and written at once, which is the
  \<open>None\<close> case.
\<close>

definition internal_hl_json_region_events ::
  "glob \<Rightarrow> nat \<Rightarrow> regions_t \<Rightarrow> (json_event list) option" where
  "internal_hl_json_region_events g heap node =
     (let extended_total_num_events = total_num_events g + 2 in
      case malloc heap of
        (False, heap1) \<Rightarrow> None
      | (True, heap1) \<Rightarrow>
          (let names0 = (\<lambda>i. [])(0 := ''region_count'', 1 := ''cycles'');
               (cmp_iter, all_event_names) =
                  for_events g (\<lambda>i j (cmp_iter, names).
                      (cmp_iter + 1, names(cmp_iter := event_names (components g i) j)))
                    (2, names0)
           in Some (map (\<lambda>j. (all_event_names j, total (values' node j),
                               json_read_values 1 (rev (read_values (values' node j)))))
                      [0..<extended_total_num_events])))"

text \<open>The regions \<open>ns\<close> in the order in which the loop prints them.\<close>

fun json_regions_loop :: "glob \<Rightarrow> regions_t list \<Rightarrow> nat \<Rightarrow> (json_region list \<times> nat) option" where
  "json_regions_loop g [] heap = Some ([], heap)"
| "json_regions_loop g (n # ns) heap =
     (case internal_hl_json_region_events g heap n of
        None \<Rightarrow> None
      | Some events \<Rightarrow>
          (case json_regions_loop g ns (snd (malloc heap)) of
             None \<Rightarrow> None
           | Some (out, heap1) \<Rightarrow> Some ((region n, events) # out, heap1)))"

text \<open>
  The walk goes to the last node of the region list and prints from there along \<open>prev\<close>.
  A thread node without regions is the \<open>None\<close> case.
\<close>

definition internal_hl_json_regions ::
  "glob \<Rightarrow> threads_t \<Rightarrow> nat \<Rightarrow> (json_region list \<times> nat) option" where
  "internal_hl_json_regions g thread_node heap =
     (case regions thread_node of
        [] \<Rightarrow> None
      | n # ns \<Rightarrow> json_regions_loop g (rev (n # ns)) heap)"

fun internal_hl_json_threads ::
  "glob \<Rightarrow> ulong list \<Rightarrow> nat \<Rightarrow> (json_thread list \<times> nat) option" where
  "internal_hl_json_threads g [] heap = Some ([], heap)"
| "internal_hl_json_threads g (tid # tids) heap =
     (case internal_hl_find_thread_node tid g of
        None \<Rightarrow> None
      | Some None \<Rightarrow> internal_hl_json_threads g tids heap
      | Some (Some t) \<Rightarrow>
          (case internal_hl_json_regions g (thread_at g t) heap of
             None \<Rightarrow> None
           | Some (rs, heap1) \<Rightarrow>
               (case internal_hl_json_threads g tids heap1 of
                  None \<Rightarrow> None
                | Some (out, heap2) \<Rightarrow> Some ((key (thread_at g t), rs) # out, heap2))))"

definition not_matching_warning :: line where
  "not_matching_warning =
     (''PAPI-HL Warning: Cannot generate output due to not matching regions.'', [])"

definition internal_hl_write_output :: "hw \<Rightarrow> glob \<Rightarrow> glob option" where
  "internal_hl_write_output h g =
     (if output_generated g = False then
        (if binary_tree g = None then
           Some (verbose_fprintf g ''PAPI-HL Info: No events were recorded.'' [])
         else if region_begin_cnt g \<noteq> region_end_cnt g then
           Some ((verbose_fprintf g (fst not_matching_warning) (snd not_matching_warning))
                 \<lparr>output_generated := True\<rparr>)
         else
           (let g1 = verbose_fprintf g ''PAPI-HL Info: Print results...'' [] in
            case absolute_output_file_path g1 of
              None \<Rightarrow> None
            | Some dir \<Rightarrow>
                (let (retval, heap1) = internal_hl_mkdir h (mallocs_left g1);
                     g2 = g1\<lparr>mallocs_left := heap1\<rparr>
                 in if retval \<noteq> PAPI_OK then
                      Some (verbose_fprintf g2
                              ''PAPI-HL Error: Cannot create measurement directory %s.'' [S dir])
                    else
                      (let rank = internal_hl_determine_rank h;
                           path = (if rank < 0 then dir @ ''/rank_'' @ mkstemp h
                                   else dir @ ''/rank_'' @
                                        replicate (4 - length (dec (nat rank))) CHR ''0'' @
                                        dec (nat rank));
                           g3 = g2\<lparr>absolute_output_file_path := Some path,
                                   files := (if rank < 0 then files g2 @ [(path, None)]
                                             else files g2)\<rparr>
                       in if \<not> fopen_ok h then
                            Some (verbose_fprintf g3
                                    ''PAPI-HL Error: Cannot create output file %s!'' [S path])
                          else
                            (let g4 = g3\<lparr>files := files g3 @ [(path, None)]\<rparr> in
                             if fst (PAPI_list_threads h) \<noteq> PAPI_OK then
                               Some (verbose_fprintf g4
                                       ''PAPI-HL Error: PAPI_list_threads call failed!'' [])
                             else
                               (case malloc (mallocs_left g4) of
                                  (False, heap2) \<Rightarrow>
                                    Some (verbose_fprintf (g4\<lparr>mallocs_left := heap2\<rparr>)
                                            ''PAPI-HL Error: OOM!'' [])
                                | (True, heap2) \<Rightarrow>
                                    (case internal_hl_json_threads g4
                                            (snd (PAPI_list_threads h)) heap2 of
                                       None \<Rightarrow> None
                                     | Some (out, heap3) \<Rightarrow>
                                         (let g5 = g4\<lparr>mallocs_left := heap3,
                                                     files := files g4 @
                                                       [(path, Some (PAPI_get_opt_CLOCKRATE h, out))]\<rparr>;
                                              g6 = (if getenv h ''PAPI_REPORT'' \<noteq> None then
                                                      g5\<lparr>stdout := stdout g5 @
                                                           [(''PAPI-HL Output:'', []),
                                                            (''%s'', [S path])]\<rparr>
                                                    else g5)
                                          in Some (g6\<lparr>output_generated := True\<rparr>)))))))))
      else Some g)"

definition internal_PAPI_hl_print_output :: "hw \<Rightarrow> glob \<Rightarrow> glob option" where
  "internal_PAPI_hl_print_output h g =
     (if state g = PAPIHL_ACTIVE \<and> hl_initiated g = True \<and> output_generated g = False
      then internal_hl_write_output h g else Some g)"

subsection \<open>Regions\<close>

text \<open>
  The part common to the three region functions: PAPI-HL is deactivated, and the thread
  cleans up its own data if it has not done so.
\<close>

definition region_deactivated :: "hw \<Rightarrow> tls \<times> glob \<Rightarrow> (int \<times> tls \<times> glob) option" where
  "region_deactivated h = (\<lambda>(l, g).
     if local_state l = PAPIHL_ACTIVE
     then Some (PAPI_EMISC, internal_hl_clean_up_local_data h (l, g))
     else Some (PAPI_EMISC, l, g))"

definition PAPI_hl_region_begin :: "hw \<Rightarrow> string \<Rightarrow> tls \<times> glob \<Rightarrow> (int \<times> tls \<times> glob) option" where
  "PAPI_hl_region_begin h rname = (\<lambda>(l, g).
     if state g = PAPIHL_DEACTIVATED then region_deactivated h (l, g)
     else if hl_finalized g = True then Some (PAPI_ENOTRUN, l, g)
     else
       (let (retval0, g1) = (if hl_initiated g = False then internal_PAPI_hl_init h g
                             else (PAPI_OK, g))
        in if retval0 \<noteq> PAPI_OK then Some (retval0, l, g1)
           else
             (case (if events_determined g1 = False then internal_PAPI_hl_set_events h None g1
                    else Some (PAPI_OK, g1)) of
                None \<Rightarrow> None
              | Some (retval1, g2) \<Rightarrow>
                  if retval1 \<noteq> PAPI_OK then Some (retval1, l, g2)
                  else
                    (let (retval2, l1, g3) =
                           (if local_components l = None
                            then internal_hl_create_event_sets h (l, g2) else (PAPI_OK, l, g2))
                     in if retval2 \<noteq> PAPI_OK then
                          map_option (\<lambda>s. (retval2, s)) (internal_hl_clean_up_all h True (l1, g3))
                        else
                          (case internal_hl_read_and_store_counters h rname REGION_BEGIN (l1, g3) of
                             None \<Rightarrow> None
                           | Some (retval3, l2, g4) \<Rightarrow>
                               if retval3 \<noteq> PAPI_OK then Some (retval3, l2, g4)
                               else Some (PAPI_OK,
                                          l2\<lparr>local_region_begin_cnt := local_region_begin_cnt l2 + 1\<rparr>,
                                          g4))))))"

definition PAPI_hl_read :: "hw \<Rightarrow> string \<Rightarrow> tls \<times> glob \<Rightarrow> (int \<times> tls \<times> glob) option" where
  "PAPI_hl_read h rname = (\<lambda>(l, g).
     if state g = PAPIHL_DEACTIVATED then region_deactivated h (l, g)
     else if local_region_begin_cnt l = 0 then
       Some (PAPI_EMISC, l,
             verbose_fprintf g
               ''PAPI-HL Warning: Cannot find matching region for PAPI_hl_read(%s) for thread %lu.''
               [S rname, U (PAPI_thread_id h)])
     else if local_components l = None then Some (PAPI_ENOTRUN, l, g)
     else
       (case internal_hl_read_and_store_counters h rname REGION_READ (l, g) of
          None \<Rightarrow> None
        | Some (retval, l1, g1) \<Rightarrow>
            if retval \<noteq> PAPI_OK then Some (retval, l1, g1) else Some (PAPI_OK, l1, g1)))"

definition PAPI_hl_region_end :: "hw \<Rightarrow> string \<Rightarrow> tls \<times> glob \<Rightarrow> (int \<times> tls \<times> glob) option" where
  "PAPI_hl_region_end h rname = (\<lambda>(l, g).
     if state g = PAPIHL_DEACTIVATED then region_deactivated h (l, g)
     else if local_region_begin_cnt l = 0 then
       Some (PAPI_EMISC, l,
             verbose_fprintf g
               ''PAPI-HL Warning: Cannot find matching region for PAPI_hl_region_end(%s) for thread %lu.''
               [S rname, U (PAPI_thread_id h)])
     else if local_components l = None then Some (PAPI_ENOTRUN, l, g)
     else
       (case internal_hl_read_and_store_counters h rname REGION_END (l, g) of
          None \<Rightarrow> None
        | Some (retval, l1, g1) \<Rightarrow>
            if retval \<noteq> PAPI_OK then Some (retval, l1, g1)
            else Some (PAPI_OK,
                       l1\<lparr>local_region_end_cnt := local_region_end_cnt l1 + 1\<rparr>, g1)))"


subsection \<open>The state at program start and a quiet environment\<close>

text \<open>
  The initialisers of the global and thread-local variables; \<open>heap\<close> is the number of
  allocations that will succeed. Memory behind the null pointers is never read.
\<close>

definition glob_init :: "nat \<Rightarrow> glob" where
  "glob_init heap =
     \<lparr>components = (\<lambda>i. \<lparr>component_id = 0, num_of_events = 0, max_num_of_events = 0,
                           event_names = (\<lambda>j. []), event_codes = (\<lambda>j. 0),
                           event_types = (\<lambda>j. 0), EventSet = PAPI_NULL\<rparr>),
      components_freed = False,
      num_of_components = 0,
      max_num_of_components = PAPIHL_NUM_OF_COMPONENTS,
      total_num_events = 0,
      num_of_cleaned_threads = 0,
      binary_tree = None,
      requested_event_names = (\<lambda>i. None),
      num_of_requested_events = 0,
      hl_initiated = False,
      hl_finalized = False,
      events_determined = False,
      output_generated = False,
      absolute_output_file_path = None,
      output_counter = 0,
      verbosity = 1,
      state = PAPIHL_ACTIVE,
      region_begin_cnt = 0,
      region_end_cnt = 0,
      master_thread_id = - 1,
      mallocs_left = heap,
      stdout = [],
      files = [],
      papi_shutdown_called = False,
      library_is_initialized = False,
      root = Leaf_t\<rparr>"

definition tls_init :: tls where
  "tls_init =
     \<lparr>local_components = None, local_cycles = 0, local_state = PAPIHL_ACTIVE,
      local_region_begin_cnt = 0, local_region_end_cnt = 0\<rparr>"

text \<open>
  An environment in which every call succeeds: thread 7, the environment variable
  \<open>PAPI_EVENTS\<close> asking for \<open>PAPI_TOT_INS\<close> (delta) and \<open>PAPI_TOT_CYC\<close> (instant), both
  on component 0, and counters that read \<open>v\<close> for the first event, \<open>v + 1\<close> for the
  second, and \<open>c\<close> cycles.
\<close>

definition hw_quiet :: "long_long \<Rightarrow> long_long \<Rightarrow> hw" where
  "hw_quiet v c =
     \<lparr>PAPI_thread_id = 7,
      getenv = (\<lambda>name. if name = ''PAPI_EVENTS''
                        then Some ''PAPI_TOT_INS,PAPI_TOT_CYC=instant'' else None),
      have_pthread_once = True,
      PAPI_library_init_ok = True,
      PAPI_thread_init = PAPI_OK,
      PAPI_multiplex_init = PAPI_OK,
      getcwd = ''/tmp'',
      stat_is_dir = False,
      stat_mtime = 0,
      time_now = 1,
      rename_ok = True,
      atoi = (\<lambda>str. 0),
      mkstemp = ''abcdef'',
      PAPI_create_eventset = (PAPI_OK, 1),
      PAPI_event_name_to_code = (\<lambda>name.
         if name = ''PAPI_TOT_INS'' then (PAPI_OK, 50)
         else if name = ''PAPI_TOT_CYC'' then (PAPI_OK, 59)
         else (- 7, 0)),
      PAPI_COMPONENT_INDEX = (\<lambda>event. 0),
      PAPI_add_event = (\<lambda>held event. PAPI_OK),
      PAPI_cleanup_eventset = PAPI_OK,
      PAPI_destroy_eventset = PAPI_OK,
      PAPI_assign_eventset_component = PAPI_OK,
      PAPI_get_multiplex = False,
      PAPI_set_multiplex = PAPI_OK,
      PAPI_get_component_info_name = (\<lambda>cid. ''perf_event''),
      PAPI_start = (\<lambda>i. PAPI_OK),
      PAPI_read = (\<lambda>i. (PAPI_OK, (\<lambda>j. v + of_nat j))),
      PAPI_read_ts = (\<lambda>i. (PAPI_OK, (\<lambda>j. v + of_nat j), c)),
      PAPI_stop = (\<lambda>i. PAPI_OK),
      PAPI_list_threads = (PAPI_OK, [7]),
      PAPI_get_opt_CLOCKRATE = 2000,
      dataSlotArray = [],
      mkdir_ok = True,
      fopen_ok = True,
      tsearch_rebalance = (\<lambda>rootp. rootp)\<rparr>"

subsection \<open>Observations used in the statements\<close>

text \<open>
  The events in the order in which the event loops visit them: the event at position
  \<open>k\<close> of this list has slot \<open>2 + k\<close> of every region.
\<close>

definition event_slots :: "glob \<Rightarrow> (nat \<times> nat) list" where
  "event_slots g =
     concat (map (\<lambda>i. map (\<lambda>j. (i, j)) [0..<num_of_events (components g i)])
               [0..<num_of_components g])"

text \<open>
  What \<open>_internal_hl_read_counters\<close> leaves in \<open>_local_components[i].values[j]\<close> and in
  \<open>_local_cycles\<close> when every read succeeds.
\<close>

definition reading :: "hw \<Rightarrow> glob \<Rightarrow> nat \<Rightarrow> nat \<Rightarrow> long_long" where
  "reading h g i j =
     (if i < num_of_components g - 1 then snd (PAPI_read h i) j
      else fst (snd (PAPI_read_ts h i)) j)"

definition cycles_read :: "hw \<Rightarrow> glob \<Rightarrow> long_long" where
  "cycles_read h g = snd (snd (PAPI_read_ts h (num_of_components g - 1)))"

text \<open>The region node that the store holds for a thread and a region name.\<close>

definition region_node :: "glob \<Rightarrow> ulong \<Rightarrow> string \<Rightarrow> regions_t option" where
  "region_node g tid rname =
     (case internal_hl_find_thread_node tid g of
        Some (Some t) \<Rightarrow>
          (case internal_hl_find_region_node (regions (thread_at g t)) rname of
             Some r \<Rightarrow> Some (regions (thread_at g t) ! r)
           | None \<Rightarrow> None)
      | _ \<Rightarrow> None)"

text \<open>The list of region nodes that the store holds for a thread.\<close>

definition thread_regions :: "glob \<Rightarrow> ulong \<Rightarrow> regions_t list option" where
  "thread_regions g tid =
     (case internal_hl_find_thread_node tid g of
        Some (Some t) \<Rightarrow> Some (regions (thread_at g t))
      | _ \<Rightarrow> None)"

text \<open>
  \<open>compar\<close> returns the difference of two thread ids cut to an \<open>int\<close>, which orders
  thread ids only if they are close to each other. \<open>compar_orders ks\<close>: on the thread
  ids \<open>ks\<close> the result of \<open>compar\<close> is 0 for equal ids only and negative exactly when
  the first id is the smaller one.
\<close>

definition compar_orders :: "ulong set \<Rightarrow> bool" where
  "compar_orders ks =
     (\<forall>a\<in>ks. \<forall>b\<in>ks. (compar a b = 0 \<longleftrightarrow> a = b) \<and> (sint (compar a b) < 0 \<longleftrightarrow> a < b))"

text \<open>
  \<open>tree_inv ks g\<close>: every tree node points to a thread node, the thread ids of the tree
  are among \<open>ks\<close>, and from left to right they increase.
\<close>

definition tree_inv :: "ulong set \<Rightarrow> glob \<Rightarrow> bool" where
  "tree_inv ks g =
     (case binary_tree g of
        None \<Rightarrow> True
      | Some ns \<Rightarrow>
          sorted_wrt (\<lambda>p q. key (ns ! p) < key (ns ! q)) (inorder_t (root g)) \<and>
          (\<forall>p\<in>set (inorder_t (root g)). p < length ns \<and> key (ns ! p) \<in> ks))"

text \<open>The offsets after a REGION\_BEGIN and the totals after a REGION\_END, slot by slot.\<close>

definition begin_offset ::
  "glob \<Rightarrow> (nat \<Rightarrow> local_components_t) \<Rightarrow> long_long \<Rightarrow> regions_t \<Rightarrow> nat \<Rightarrow> long_long" where
  "begin_offset g lc cycles node m =
     (if m = 0 then 1 else if m = 1 then cycles
      else if m < 2 + length (event_slots g)
        then lvalues (lc (fst (event_slots g ! (m - 2)))) (snd (event_slots g ! (m - 2)))
      else offset (values' node m))"

definition end_total ::
  "glob \<Rightarrow> (nat \<Rightarrow> local_components_t) \<Rightarrow> long_long \<Rightarrow> regions_t \<Rightarrow> nat \<Rightarrow> long_long" where
  "end_total g lc cycles node m =
     (if m = 0 then total (values' node 0) + offset (values' node 0)
      else if m = 1 then total (values' node 1) + (cycles - offset (values' node 1))
      else if m < 2 + length (event_slots g) then
        (if event_types (components g (fst (event_slots g ! (m - 2))))
              (snd (event_slots g ! (m - 2))) = 1
         then total (values' node m)
              + lvalues (lc (fst (event_slots g ! (m - 2)))) (snd (event_slots g ! (m - 2)))
         else total (values' node m)
              + (lvalues (lc (fst (event_slots g ! (m - 2)))) (snd (event_slots g ! (m - 2)))
                 - offset (values' node m)))
      else total (values' node m))"



text \<open>The node that a REGION\_BEGIN creates.\<close>

definition new_region_node ::
  "glob \<Rightarrow> (nat \<Rightarrow> local_components_t) \<Rightarrow> long_long \<Rightarrow> string \<Rightarrow> regions_t" where
  "new_region_node g lc cycles rname =
     \<lparr>region = rname,
      values' = \<lambda>m. fresh_value\<lparr>offset :=
                  begin_offset g lc cycles \<lparr>region = rname, values' = (\<lambda>i. fresh_value)\<rparr> m\<rparr>\<rparr>"

text \<open>
  A list of matched pairs of \<open>PAPI_hl_region_begin\<close> and \<open>PAPI_hl_region_end\<close> on one
  region, each call with its own answers of the environment; \<open>None\<close> when a call does
  not return \<open>PAPI_OK\<close>. \<open>pair_delta g p m\<close> is what the pair \<open>p\<close> adds to the total of
  slot \<open>m\<close>.
\<close>

fun region_pairs :: "string \<Rightarrow> (hw \<times> hw) list \<Rightarrow> tls \<times> glob \<Rightarrow> (tls \<times> glob) option" where
  "region_pairs rname [] s = Some s"
| "region_pairs rname ((hb, he) # ps) s =
     (case PAPI_hl_region_begin hb rname s of
        None \<Rightarrow> None
      | Some (rv, s1) \<Rightarrow>
          if rv \<noteq> PAPI_OK then None
          else
            (case PAPI_hl_region_end he rname s1 of
               None \<Rightarrow> None
             | Some (rv2, s2) \<Rightarrow> if rv2 \<noteq> PAPI_OK then None else region_pairs rname ps s2))"

definition pair_delta :: "glob \<Rightarrow> hw \<times> hw \<Rightarrow> nat \<Rightarrow> long_long" where
  "pair_delta g p m =
     (if m = 0 then 1
      else if m = 1 then cycles_read (snd p) g - cycles_read (fst p) g
      else if event_types (components g (fst (event_slots g ! (m - 2))))
                 (snd (event_slots g ! (m - 2))) = 1
        then reading (snd p) g (fst (event_slots g ! (m - 2))) (snd (event_slots g ! (m - 2)))
      else reading (snd p) g (fst (event_slots g ! (m - 2))) (snd (event_slots g ! (m - 2)))
           - reading (fst p) g (fst (event_slots g ! (m - 2))) (snd (event_slots g ! (m - 2))))"

text \<open>
  \<open>store_frame g g'\<close>: the globals \<open>g'\<close> differ from \<open>g\<close> at most in the heap, in
  \<open>stdout\<close>, in the store and in the two region counts.
\<close>

definition store_frame :: "glob \<Rightarrow> glob \<Rightarrow> bool" where
  "store_frame g g' =
     (g' = g\<lparr>mallocs_left := mallocs_left g', stdout := stdout g',
              binary_tree := binary_tree g', root := root g',
              region_begin_cnt := region_begin_cnt g', region_end_cnt := region_end_cnt g'\<rparr>)"


text \<open>\<open>frame g g'\<close>: the globals \<open>g'\<close> differ from \<open>g\<close> at most in the heap and in \<open>stdout\<close>.\<close>

definition frame :: "glob \<Rightarrow> glob \<Rightarrow> bool" where
  "frame g g' = (g' = g\<lparr>mallocs_left := mallocs_left g', stdout := stdout g'\<rparr>)"

text \<open>
  A run on thread 7 from program start: \<open>begin(a)\<close> with the counters at 100 and 101 and
  5 cycles.
\<close>

definition scen_begin_a :: "(int \<times> tls \<times> glob) option" where
  "scen_begin_a = PAPI_hl_region_begin (hw_quiet 100 5) ''a'' (tls_init, glob_init 100)"

text \<open>The scan of \<open>_internal_hl_check_for_clean_thread_states\<close> finds no running event set.\<close>

definition no_session_running :: "hw \<Rightarrow> bool" where
  "no_session_running h =
     list_all (\<lambda>ESI. case ESI of None \<Rightarrow> True | Some s \<Rightarrow> s AND PAPI_RUNNING = 0)
       (dataSlotArray h)"

text \<open>
  The globals after a successful \<open>PAPI_hl_init\<close>, and three calls of
  \<open>PAPI_hl_set_events\<close> on them.
\<close>

definition glob_initiated :: glob where
  "glob_initiated =
     (glob_init 100)\<lparr>hl_initiated := True, absolute_output_file_path := Some ''/tmp/papi''\<rparr>"

definition scen_set_events_empty :: "(int \<times> glob) option" where
  "scen_set_events_empty = internal_PAPI_hl_set_events (hw_quiet 0 0) (Some []) glob_initiated"

definition scen_instant_first :: "(int \<times> glob) option" where
  "scen_instant_first =
     internal_PAPI_hl_set_events (hw_quiet 0 0) (Some ''PAPI_TOT_INS=instant,PAPI_TOT_CYC'')
       glob_initiated"

definition scen_instant_last :: "(int \<times> glob) option" where
  "scen_instant_last =
     internal_PAPI_hl_set_events (hw_quiet 0 0) (Some ''PAPI_TOT_CYC,PAPI_TOT_INS=instant'')
       glob_initiated"

text \<open>
  After the first \<open>begin(a)\<close>: two matched pairs on region \<open>b\<close>, and a read of region
  \<open>a\<close> with the counters at 105 and 106 and 6 cycles.
\<close>

definition scen_pairs :: "(hw \<times> hw) list" where
  "scen_pairs = [(hw_quiet 100 5, hw_quiet 110 6), (hw_quiet 200 9, hw_quiet 230 12)]"

definition scen_pairs_b :: "(tls \<times> glob) option" where
  "scen_pairs_b = region_pairs ''b'' scen_pairs (snd (the scen_begin_a))"

definition scen_read_a :: "(int \<times> tls \<times> glob) option" where
  "scen_read_a = PAPI_hl_read (hw_quiet 105 6) ''a'' (snd (the scen_begin_a))"

text \<open>
  After the two pairs on \<open>b\<close>, region \<open>a\<close> is closed and the report is written;
  \<open>last_report\<close> reads the threads of the file written last.  In a second run
  region \<open>b\<close> is opened inside \<open>a\<close> after the read of \<open>a\<close>.
\<close>

definition scen_end_a_last :: "(int \<times> tls \<times> glob) option" where
  "scen_end_a_last = PAPI_hl_region_end (hw_quiet 300 20) ''a'' (the scen_pairs_b)"

definition scen_report :: "glob option" where
  "scen_report = internal_PAPI_hl_print_output (hw_quiet 0 0) (snd (snd (the scen_end_a_last)))"

definition last_report :: "glob \<Rightarrow> json_thread list" where
  "last_report g = snd (the (snd (last (files g))))"

definition scen_begin_b_nested :: "(int \<times> tls \<times> glob) option" where
  "scen_begin_b_nested = PAPI_hl_region_begin (hw_quiet 110 7) ''b'' (snd (the scen_read_a))"





definition hw_thread_8 :: hw where
  "hw_thread_8 = (hw_quiet 105 6)\<lparr>PAPI_thread_id := 8\<rparr>"

text \<open>
  A longer run. Thread 7 reads region \<open>a\<close> and ends it with the counters at 110 and 111
  and 7 cycles, and begins region \<open>b\<close>; thread 8 begins region \<open>c\<close>; thread 7 begins
  region \<open>a\<close> again with the counters at 200 and 201 and 9 cycles and reads it with the
  counters at 230 and 231 and 12 cycles.
\<close>

definition scen_end_a :: "(int \<times> tls \<times> glob) option" where
  "scen_end_a = PAPI_hl_region_end (hw_quiet 110 7) ''a'' (snd (the scen_read_a))"

definition scen_begin_b_after :: "(int \<times> tls \<times> glob) option" where
  "scen_begin_b_after = PAPI_hl_region_begin (hw_quiet 120 8) ''b'' (snd (the scen_end_a))"

definition scen_begin_c_8 :: "(int \<times> tls \<times> glob) option" where
  "scen_begin_c_8 =
     PAPI_hl_region_begin hw_thread_8 ''c'' (tls_init, snd (snd (the scen_begin_b_after)))"

definition scen_rebegin_a :: "(int \<times> tls \<times> glob) option" where
  "scen_rebegin_a =
     PAPI_hl_region_begin (hw_quiet 200 9) ''a''
       (fst (snd (the scen_begin_b_after)), snd (snd (the scen_begin_c_8)))"

definition scen_reread_a :: "(int \<times> tls \<times> glob) option" where
  "scen_reread_a = PAPI_hl_read (hw_quiet 230 12) ''a'' (snd (the scen_rebegin_a))"

section \<open>Properties\<close>

subsection \<open>Evaluation of the model on concrete states\<close>

lemmas model_defs =
  PAPI_hl_region_begin_def PAPI_hl_region_end_def PAPI_hl_read_def region_deactivated_def
  internal_PAPI_hl_init_def internal_hl_onetime_library_init_def internal_hl_library_init_def
  internal_hl_determine_output_path_def internal_PAPI_hl_set_events_def
  internal_hl_read_events_def internal_hl_determine_default_events_def default_events_def
  internal_hl_checkCounter_def internal_hl_create_components_def
  internal_hl_new_component_def internal_hl_add_event_to_component_def realloc3_def
  set_component_def multiplex_diagnostics_def internal_hl_create_global_binary_tree_def
  internal_hl_create_event_sets_def internal_hl_read_and_store_counters_def
  internal_hl_read_counters_def deref_local_components_def internal_hl_store_counters_def
  internal_hl_find_thread_node_def internal_hl_insert_thread_node_def tsearch_def
  internal_hl_insert_region_node_def internal_hl_add_values_to_region_def
  internal_hl_insert_read_node_def for_events_def region_begin_body_def region_read_body_def
  region_end_body_def thread_at_def set_regions_def verbose_fprintf_def malloc_def compar_def
  fresh_value_def internal_hl_clean_up_all_def internal_hl_clean_up_local_data_def
  internal_hl_clean_up_global_data_def internal_hl_check_for_clean_thread_states_def
  destroy_local_event_set_def shutdown_warning_def not_matching_warning_def
  internal_hl_read_user_events_def
  PAPIHL_ACTIVE_def PAPIHL_DEACTIVATED_def PAPIHL_NUM_OF_COMPONENTS_def
  PAPIHL_NUM_OF_EVENTS_PER_COMPONENT_def PAPI_NULL_def papi_codes
  glob_init_def tls_init_def hw_quiet_def find_component.simps Let_def

lemmas eval_defs = model_defs upt_rec [of _ "numeral n" for n] upt_rec [of _ "Suc n" for n]

lemmas scen_defs = scen_begin_a_def scen_read_a_def scen_end_a_def scen_begin_b_after_def
  scen_begin_c_8_def scen_rebegin_a_def scen_reread_a_def hw_thread_8_def

subsection \<open>The event loops\<close>


lemma fold_concat_fold: "fold f (concat xss) s = fold (fold f) xss s"
  by (induction xss arbitrary: s) simp_all

lemma for_events_flat: "for_events g body s = fold (\<lambda>(i, j). body i j) (event_slots g) s"
  unfolding for_events_def event_slots_def
  by (simp add: fold_concat_fold fold_map comp_def)

lemma fold_slots:
  "fold (\<lambda>x (it, vs). (it + 1, vs(it := upd x (vs it)))) xs (k, vs) =
     (k + length xs,
      \<lambda>m. if k \<le> m \<and> m < k + length xs then upd (xs ! (m - k)) (vs m) else vs m)"
proof (induction xs arbitrary: k vs)
  case Nil
  show ?case by (auto simp: fun_eq_iff)
next
  case (Cons x xs)
  have "fold (\<lambda>x (it, vs). (it + 1, vs(it := upd x (vs it)))) (x # xs) (k, vs) =
        fold (\<lambda>x (it, vs). (it + 1, vs(it := upd x (vs it)))) xs
          (k + 1, vs(k := upd x (vs k)))"
    by simp
  also have "\<dots> = (k + 1 + length xs,
      \<lambda>m. if k + 1 \<le> m \<and> m < k + 1 + length xs
           then upd (xs ! (m - (k + 1))) ((vs(k := upd x (vs k))) m)
           else (vs(k := upd x (vs k))) m)"
    by (rule Cons.IH)
  also have "\<dots> = (k + length (x # xs),
      \<lambda>m. if k \<le> m \<and> m < k + length (x # xs)
           then upd ((x # xs) ! (m - k)) (vs m) else vs m)"
    by (auto simp: fun_eq_iff nth_Cons' Suc_diff_le)
  finally show ?case .
qed

lemma region_begin_fold:
  "fold (\<lambda>(i, j). region_begin_body lc i j) xs (k, vs) =
     (k + length xs,
      \<lambda>m. if k \<le> m \<and> m < k + length xs
           then (vs m)\<lparr>offset := lvalues (lc (fst (xs ! (m - k)))) (snd (xs ! (m - k)))\<rparr>
           else vs m)"
  using fold_slots [of "\<lambda>x v. v\<lparr>offset := lvalues (lc (fst x)) (snd x)\<rparr>" xs k vs]
  by (simp add: region_begin_body_def case_prod_unfold)

lemma region_end_fold:
  "fold (\<lambda>(i, j). region_end_body g lc i j) xs (k, vs) =
     (k + length xs,
      \<lambda>m. if k \<le> m \<and> m < k + length xs
           then (vs m)\<lparr>total :=
                  (if event_types (components g (fst (xs ! (m - k)))) (snd (xs ! (m - k))) = 1
                   then total (vs m) + lvalues (lc (fst (xs ! (m - k)))) (snd (xs ! (m - k)))
                   else total (vs m) + (lvalues (lc (fst (xs ! (m - k)))) (snd (xs ! (m - k)))
                                        - offset (vs m)))\<rparr>
           else vs m)"
  using fold_slots [of "\<lambda>x v. v\<lparr>total :=
                  (if event_types (components g (fst x)) (snd x) = 1
                   then total v + lvalues (lc (fst x)) (snd x)
                   else total v + (lvalues (lc (fst x)) (snd x) - offset v))\<rparr>" xs k vs]
  by (simp add: region_end_body_def case_prod_unfold)


lemma add_values_begin:
  "internal_hl_add_values_to_region g lc cycles node REGION_BEGIN =
     (PAPI_OK,
      node\<lparr>values' := \<lambda>m. (values' node m)\<lparr>offset := begin_offset g lc cycles node m\<rparr>\<rparr>,
      mallocs_left g)"
  by (auto simp: internal_hl_add_values_to_region_def for_events_flat region_begin_fold
        begin_offset_def fun_eq_iff Let_def)

lemma add_values_end:
  "internal_hl_add_values_to_region g lc cycles node REGION_END =
     (PAPI_OK,
      node\<lparr>values' := \<lambda>m. (values' node m)\<lparr>total := end_total g lc cycles node m\<rparr>\<rparr>,
      mallocs_left g)"
  by (auto simp: internal_hl_add_values_to_region_def for_events_flat region_end_fold
        end_total_def fun_eq_iff Let_def)

lemma tfind_compar:
  "tfind tid ns t = Some p \<Longrightarrow> compar tid (key (ns ! p)) = 0 \<and> p \<in> set (inorder_t t)"
  by (induction t) (auto split: if_splits)

lemma tfind_keys_cong:
  "\<forall>p\<in>set (inorder_t t). key (ns' ! p) = key (ns ! p) \<Longrightarrow> tfind tid ns' t = tfind tid ns t"
  by (induction t) auto

lemma key_list_update: "key n = key (ns ! q) \<Longrightarrow> key (ns[q := n] ! p) = key (ns ! p)"
  by (cases "q < length ns") (auto simp: nth_list_update list_update_beyond)

lemma find_region_Some:
  "internal_hl_find_region_node rs rname = Some r \<Longrightarrow> r < length rs \<and> region (rs ! r) = rname"
  by (induction rs arbitrary: r) (auto split: if_splits)

lemma find_region_update:
  "r < length rs \<Longrightarrow> region n = region (rs ! r) \<Longrightarrow>
     internal_hl_find_region_node (rs[r := n]) rname = internal_hl_find_region_node rs rname"
proof (induction rs arbitrary: r)
  case Nil
  then show ?case by simp
next
  case (Cons a rs)
  then show ?case by (cases r) auto
qed

lemma tfind_update: "key n = key (ns ! q) \<Longrightarrow> tfind tid (ns[q := n]) t = tfind tid ns t"
  by (rule tfind_keys_cong) (simp add: key_list_update)

lemma frame_refl: "frame g g"
  by (simp add: frame_def)

lemma frame_trans: "frame g g' \<Longrightarrow> frame g' g'' \<Longrightarrow> frame g g''"
  unfolding frame_def
proof -
  assume a: "g' = g\<lparr>mallocs_left := mallocs_left g', stdout := stdout g'\<rparr>"
     and b: "g'' = g'\<lparr>mallocs_left := mallocs_left g'', stdout := stdout g''\<rparr>"
  have "g'' = (g\<lparr>mallocs_left := mallocs_left g', stdout := stdout g'\<rparr>)
                \<lparr>mallocs_left := mallocs_left g'', stdout := stdout g''\<rparr>"
    using a b by simp
  then show "g'' = g\<lparr>mallocs_left := mallocs_left g'', stdout := stdout g''\<rparr>"
    by simp
qed

lemma frame_heap: "frame g g' \<Longrightarrow> frame g (g'\<lparr>mallocs_left := a\<rparr>)"
  by (rule frame_trans [of _ g']) (simp_all add: frame_def)

lemma frame_verbose: "frame g g' \<Longrightarrow> frame g (verbose_fprintf g' f a)"
  by (rule frame_trans [of _ g']) (simp_all add: frame_def verbose_fprintf_def)

lemma frame_multiplex: "frame g g' \<Longrightarrow> frame g (multiplex_diagnostics h cid g')"
  by (simp add: multiplex_diagnostics_def frame_verbose)

lemma frame_fields:
  assumes "frame g g'"
  shows "binary_tree g' = binary_tree g" "components g' = components g"
    "num_of_components g' = num_of_components g" "total_num_events g' = total_num_events g"
    "state g' = state g" "hl_initiated g' = hl_initiated g" "hl_finalized g' = hl_finalized g"
    "events_determined g' = events_determined g" "verbosity g' = verbosity g"
    "region_begin_cnt g' = region_begin_cnt g" "region_end_cnt g' = region_end_cnt g"
    "output_generated g' = output_generated g" "root g' = root g"
proof -
  from assms have e: "g' = g\<lparr>mallocs_left := mallocs_left g', stdout := stdout g'\<rparr>"
    by (simp add: frame_def)
  show "root g' = root g" by (subst e) simp
  show "binary_tree g' = binary_tree g" by (subst e) simp
  show "components g' = components g" by (subst e) simp
  show "num_of_components g' = num_of_components g" by (subst e) simp
  show "total_num_events g' = total_num_events g" by (subst e) simp
  show "state g' = state g" by (subst e) simp
  show "hl_initiated g' = hl_initiated g" by (subst e) simp
  show "hl_finalized g' = hl_finalized g" by (subst e) simp
  show "events_determined g' = events_determined g" by (subst e) simp
  show "verbosity g' = verbosity g" by (subst e) simp
  show "region_begin_cnt g' = region_begin_cnt g" by (subst e) simp
  show "region_end_cnt g' = region_end_cnt g" by (subst e) simp
  show "output_generated g' = output_generated g" by (subst e) simp
qed

lemma create_event_sets_loop_frame:
  "frame g0 g \<Longrightarrow> create_event_sets_loop h is lc g = (rv, lc', g') \<Longrightarrow> frame g0 g'"
proof (induction "is" arbitrary: lc g)
  case Nil
  then show ?case by simp
next
  case (Cons i "is")
  show ?case
  proof (cases "fst (PAPI_create_eventset h) \<noteq> PAPI_OK \<or>
                add_events_loop h (components g i) [0..<num_of_events (components g i)] \<noteq> PAPI_OK")
    case True
    with Cons.prems show ?thesis
      by (auto simp: Let_def frame_multiplex split: if_splits)
  next
    case False
    let ?g1 = "multiplex_diagnostics h (component_id (components g i)) g"
    show ?thesis
    proof (cases "fst (malloc (mallocs_left ?g1))")
      case True
      with False Cons.prems
      have "create_event_sets_loop h is
              (lc(i := (lc i)\<lparr>lEventSet := snd (PAPI_create_eventset h)\<rparr>))
              (?g1\<lparr>mallocs_left := snd (malloc (mallocs_left ?g1))\<rparr>) = (rv, lc', g')"
        by (auto simp: Let_def split: prod.splits bool.splits)
      moreover have "frame g0 (?g1\<lparr>mallocs_left := snd (malloc (mallocs_left ?g1))\<rparr>)"
        by (intro frame_heap frame_multiplex Cons.prems(1))
      ultimately show ?thesis by (rule Cons.IH [rotated])
    next
      case f: False
      with False Cons.prems
      have "g' = ?g1\<lparr>mallocs_left := snd (malloc (mallocs_left ?g1))\<rparr>"
        by (auto simp: Let_def split: prod.splits bool.splits)
      then show ?thesis
        by (simp add: frame_heap frame_multiplex Cons.prems(1))
    qed
  qed
qed

lemma create_event_sets_frame:
  "internal_hl_create_event_sets h (l, g) = (rv, l', g') \<Longrightarrow> frame g g'"
  by (auto simp: internal_hl_create_event_sets_def frame_refl frame_heap Let_def
        split: if_splits prod.splits bool.splits
        dest!: create_event_sets_loop_frame [OF frame_heap [OF frame_refl]])

lemma create_event_sets_local:
  "internal_hl_create_event_sets h (l, g) = (PAPI_OK, l', g') \<Longrightarrow>
     local_components l' \<noteq> None \<and> local_state l' = local_state l \<and>
     local_region_begin_cnt l' = local_region_begin_cnt l \<and>
     local_region_end_cnt l' = local_region_end_cnt l"
  by (auto simp: internal_hl_create_event_sets_def Let_def papi_codes
        split: if_splits prod.splits bool.splits)




lemma store_counters_existing:
  assumes "binary_tree g = Some tree" "tfind tid tree (root g) = Some t"
    "internal_hl_find_region_node (regions (tree ! t)) rname = Some r"
  shows "internal_hl_store_counters h lc cyc tid rname reg_typ g =
     (let (retval, node, heap2) =
            internal_hl_add_values_to_region g lc cyc (regions (tree ! t) ! r) reg_typ;
          g3 = g\<lparr>mallocs_left := heap2,
                 binary_tree := Some (tree[t := (tree ! t)\<lparr>regions := (regions (tree ! t))[r := node]\<rparr>])\<rparr>
      in if retval \<noteq> PAPI_OK then Some (retval, g3)
         else Some (PAPI_OK,
                g3\<lparr>region_begin_cnt :=
                     (if reg_typ = REGION_BEGIN then region_begin_cnt g + 1 else region_begin_cnt g),
                   region_end_cnt :=
                     (if reg_typ = REGION_END then region_end_cnt g + 1 else region_end_cnt g)\<rparr>))"
  using assms
  by (simp add: internal_hl_store_counters_def internal_hl_find_thread_node_def thread_at_def
        set_regions_def Let_def split: prod.splits)

lemma read_and_store_OK:
  "internal_hl_read_and_store_counters h rname typ (l, g) = Some (PAPI_OK, l', g') \<Longrightarrow>
     internal_hl_read_counters h g l = Some (PAPI_OK, l') \<and>
     internal_hl_store_counters h (deref_local_components l') (local_cycles l')
       (PAPI_thread_id h) rname typ g = Some (PAPI_OK, g')"
  by (auto simp: internal_hl_read_and_store_counters_def split: option.splits if_splits)

lemma region_begin_OK:
  assumes "state g = PAPIHL_ACTIVE" "hl_finalized g = False" "hl_initiated g = True"
    "events_determined g = True"
    "PAPI_hl_region_begin h rname (l, g) = Some (PAPI_OK, l', g')"
  shows "\<exists>l1 g1 l2. frame g g1 \<and> local_components l1 \<noteq> None \<and>
           local_region_begin_cnt l1 = local_region_begin_cnt l \<and>
           internal_hl_read_and_store_counters h rname REGION_BEGIN (l1, g1) = Some (PAPI_OK, l2, g') \<and>
           l' = l2\<lparr>local_region_begin_cnt := local_region_begin_cnt l2 + 1\<rparr>"
proof (cases "local_components l = None")
  case True
  obtain rv l1 g1 where c: "internal_hl_create_event_sets h (l, g) = (rv, l1, g1)"
    by (cases "internal_hl_create_event_sets h (l, g)") auto
  with assms True have rv: "rv = PAPI_OK"
    by (auto simp: PAPI_hl_region_begin_def PAPIHL_ACTIVE_def PAPIHL_DEACTIVATED_def
          split: if_splits option.splits)
  with assms True c obtain l2 where
    "internal_hl_read_and_store_counters h rname REGION_BEGIN (l1, g1) = Some (PAPI_OK, l2, g')"
    "l' = l2\<lparr>local_region_begin_cnt := local_region_begin_cnt l2 + 1\<rparr>"
    by (auto simp: PAPI_hl_region_begin_def PAPIHL_ACTIVE_def PAPIHL_DEACTIVATED_def
          split: if_splits option.splits)
  with create_event_sets_frame [OF c] create_event_sets_local [OF c [unfolded rv]]
  show ?thesis by auto
next
  case False
  with assms obtain l2 where
    "internal_hl_read_and_store_counters h rname REGION_BEGIN (l, g) = Some (PAPI_OK, l2, g')"
    "l' = l2\<lparr>local_region_begin_cnt := local_region_begin_cnt l2 + 1\<rparr>"
    by (auto simp: PAPI_hl_region_begin_def PAPIHL_ACTIVE_def PAPIHL_DEACTIVATED_def
          split: if_splits option.splits)
  with False frame_refl [of g] show ?thesis by blast
qed

subsection \<open>Setting the events\<close>

lemma create_global_binary_tree_events:
  "internal_hl_create_global_binary_tree g = (rv, g') \<Longrightarrow>
     events_determined g' = events_determined g"
  by (auto simp: internal_hl_create_global_binary_tree_def split: prod.splits bool.splits)

lemma read_events_OK:
  "internal_hl_read_events h events g = Some (PAPI_OK, g') \<Longrightarrow> events_determined g' = True"
  unfolding internal_hl_read_events_def
  by (auto simp: Let_def split: prod.splits option.splits if_splits)

lemma set_events_determined:
  "events_determined g = True \<Longrightarrow> state g = PAPIHL_ACTIVE \<Longrightarrow>
     internal_PAPI_hl_set_events h events g = Some (PAPI_OK, g)"
  by (simp add: internal_PAPI_hl_set_events_def PAPIHL_ACTIVE_def PAPIHL_DEACTIVATED_def)

lemma set_events_OK:
  assumes "internal_PAPI_hl_set_events h events g = Some (PAPI_OK, g1)"
  shows "state g1 = PAPIHL_ACTIVE \<and> (events_determined g1 = True \<or> hl_initiated g1 = False)"
proof (cases "hl_initiated g = True \<and> events_determined g = False")
  case False
  with assms show ?thesis
    by (auto simp: internal_PAPI_hl_set_events_def PAPIHL_ACTIVE_def PAPIHL_DEACTIVATED_def
          papi_codes split: if_splits)
next
  case True
  from assms have a: "state g = PAPIHL_ACTIVE"
    by (auto simp: internal_PAPI_hl_set_events_def papi_codes split: if_splits)
  from assms True a obtain g0 where
    r: "internal_hl_read_events h events g = Some (PAPI_OK, g0)" and
    c: "internal_hl_create_global_binary_tree g0 = (PAPI_OK, g1)" and
    s: "state g1 \<noteq> PAPIHL_DEACTIVATED"
    by (auto simp: internal_PAPI_hl_set_events_def Let_def papi_codes
          PAPIHL_ACTIVE_def PAPIHL_DEACTIVATED_def
          split: if_splits option.splits prod.splits)
  from read_events_OK [OF r] create_global_binary_tree_events [OF c] s
  show ?thesis
    by (auto simp: PAPIHL_ACTIVE_def PAPIHL_DEACTIVATED_def)
qed

subsection \<open>Cleaning up\<close>

lemma check_for_clean_thread_states_loop_OK:
  "internal_hl_check_for_clean_thread_states_loop slots = PAPI_OK \<longleftrightarrow>
     list_all (\<lambda>ESI. case ESI of None \<Rightarrow> True | Some s \<Rightarrow> s AND PAPI_RUNNING = 0) slots"
  by (induction slots) (auto simp: papi_codes split: option.splits)

lemma destroy_local_event_set_fields:
  "state (destroy_local_event_set h i g) = state g \<and>
   papi_shutdown_called (destroy_local_event_set h i g) = papi_shutdown_called g \<and>
   components_freed (destroy_local_event_set h i g) = components_freed g \<and>
   verbosity (destroy_local_event_set h i g) = verbosity g \<and>
   num_of_cleaned_threads (destroy_local_event_set h i g) = num_of_cleaned_threads g \<and>
   binary_tree (destroy_local_event_set h i g) = binary_tree g \<and>
   num_of_requested_events (destroy_local_event_set h i g) = num_of_requested_events g \<and>
   requested_event_names (destroy_local_event_set h i g) = requested_event_names g"
  by (simp add: destroy_local_event_set_def Let_def verbose_fprintf_def)

lemma fold_destroy_local_event_set_fields:
  "state (fold (destroy_local_event_set h) xs g) = state g \<and>
   papi_shutdown_called (fold (destroy_local_event_set h) xs g) = papi_shutdown_called g \<and>
   components_freed (fold (destroy_local_event_set h) xs g) = components_freed g \<and>
   verbosity (fold (destroy_local_event_set h) xs g) = verbosity g \<and>
   num_of_cleaned_threads (fold (destroy_local_event_set h) xs g) = num_of_cleaned_threads g \<and>
   binary_tree (fold (destroy_local_event_set h) xs g) = binary_tree g \<and>
   num_of_requested_events (fold (destroy_local_event_set h) xs g) = num_of_requested_events g \<and>
   requested_event_names (fold (destroy_local_event_set h) xs g) = requested_event_names g"
  by (induction xs arbitrary: g) (simp_all add: destroy_local_event_set_fields)

lemma clean_up_local_data_fields:
  "internal_hl_clean_up_local_data h (l, g) = (l', g') \<Longrightarrow>
     state g' = state g \<and> papi_shutdown_called g' = papi_shutdown_called g \<and>
     components_freed g' = components_freed g \<and> verbosity g' = verbosity g \<and>
     binary_tree g' = binary_tree g \<and>
     num_of_requested_events g' = num_of_requested_events g \<and>
     requested_event_names g' = requested_event_names g \<and>
     local_state l' = PAPIHL_DEACTIVATED \<and> local_components l' = None \<and>
     num_of_cleaned_threads g' =
       (if local_components l = None then num_of_cleaned_threads g
        else num_of_cleaned_threads g + 1)"
  by (auto simp: internal_hl_clean_up_local_data_def Let_def fold_destroy_local_event_set_fields
        split: option.splits)

lemma clean_up_global_data_fields:
  "internal_hl_clean_up_global_data g = Some g' \<Longrightarrow>
     state g' = state g \<and> papi_shutdown_called g' = papi_shutdown_called g \<and>
     components_freed g' = components_freed g \<and> verbosity g' = verbosity g \<and>
     num_of_cleaned_threads g' = num_of_cleaned_threads g \<and> stdout g' = stdout g \<and>
     binary_tree g' = map_option (\<lambda>tree. []) (binary_tree g)"
  by (auto simp: internal_hl_clean_up_global_data_def split: if_splits)

subsection \<open>Read values\<close>





subsection \<open>The counters and the nodes of the store\<close>



lemma region_node_Some:
  "region_node g tid rname = Some node \<longleftrightarrow>
     (\<exists>tree t r. binary_tree g = Some tree \<and> tfind tid tree (root g) = Some t \<and>
        internal_hl_find_region_node (regions (tree ! t)) rname = Some r \<and>
        node = regions (tree ! t) ! r)"
  by (auto simp: region_node_def internal_hl_find_thread_node_def thread_at_def
        split: option.splits)

lemma fresh_values_fold:
  "fold (\<lambda>i vals. vals(i := (vals i)\<lparr>total := 0, read_values := []\<rparr>)) xs (\<lambda>i. fresh_value)
     = (\<lambda>i. fresh_value)"
proof (induction xs)
  case Nil
  show ?case by simp
next
  case (Cons x xs)
  have "(\<lambda>i. fresh_value)(x := ((\<lambda>i. fresh_value) x)\<lparr>total := 0, read_values := []\<rparr>)
          = (\<lambda>i. fresh_value)"
    by (auto simp: fresh_value_def fun_eq_iff)
  then show ?case
    by (simp only: fold_simps o_apply Cons.IH)
qed

lemma insert_region_node_Some:
  "internal_hl_insert_region_node g rs rname = (Some rs', heap') \<Longrightarrow>
     rs' = \<lparr>region = rname, values' = (\<lambda>i. fresh_value)\<rparr> # rs"
  unfolding internal_hl_insert_region_node_def Let_def fresh_values_fold
  by (auto split: prod.splits bool.splits)

lemma begin_offset_cong:
  "components g' = components g \<Longrightarrow> num_of_components g' = num_of_components g \<Longrightarrow>
     begin_offset g' = begin_offset g"
  by (simp add: begin_offset_def event_slots_def fun_eq_iff)

lemma begin_offset_upd:
  "begin_offset (g\<lparr>mallocs_left := a\<rparr>) = begin_offset g"
  "begin_offset (g\<lparr>binary_tree := b\<rparr>) = begin_offset g"
  "begin_offset (g\<lparr>stdout := c\<rparr>) = begin_offset g"
  by (rule begin_offset_cong; simp)+

lemma event_slots_cong:
  "components g' = components g \<Longrightarrow> num_of_components g' = num_of_components g \<Longrightarrow>
     event_slots g' = event_slots g"
  by (simp add: event_slots_def)

lemma store_frame_fields:
  assumes "store_frame g g'"
  shows "components g' = components g" "num_of_components g' = num_of_components g"
    "total_num_events g' = total_num_events g" "state g' = state g"
    "hl_initiated g' = hl_initiated g" "hl_finalized g' = hl_finalized g"
    "events_determined g' = events_determined g"
proof -
  from assms have e: "g' = g\<lparr>mallocs_left := mallocs_left g', stdout := stdout g',
              binary_tree := binary_tree g', root := root g',
              region_begin_cnt := region_begin_cnt g', region_end_cnt := region_end_cnt g'\<rparr>"
    by (simp add: store_frame_def)
  show "components g' = components g" by (subst e) simp
  show "num_of_components g' = num_of_components g" by (subst e) simp
  show "total_num_events g' = total_num_events g" by (subst e) simp
  show "state g' = state g" by (subst e) simp
  show "hl_initiated g' = hl_initiated g" by (subst e) simp
  show "hl_finalized g' = hl_finalized g" by (subst e) simp
  show "events_determined g' = events_determined g" by (subst e) simp
qed

lemma store_frame_obs:
  assumes "store_frame g g'"
  shows "event_slots g' = event_slots g" "reading h g' = reading h g"
    "cycles_read h g' = cycles_read h g" "begin_offset g' = begin_offset g"
    "end_total g' = end_total g"
  using store_frame_fields [OF assms]
  by (simp_all add: event_slots_def reading_def cycles_read_def begin_offset_def end_total_def
        fun_eq_iff)

lemma store_frame_trans: "store_frame g g' \<Longrightarrow> store_frame g' g'' \<Longrightarrow> store_frame g g''"
  unfolding store_frame_def
proof -
  assume a: "g' = g\<lparr>mallocs_left := mallocs_left g', stdout := stdout g',
              binary_tree := binary_tree g', root := root g',
              region_begin_cnt := region_begin_cnt g', region_end_cnt := region_end_cnt g'\<rparr>"
    and b: "g'' = g'\<lparr>mallocs_left := mallocs_left g'', stdout := stdout g'',
              binary_tree := binary_tree g'', root := root g'',
              region_begin_cnt := region_begin_cnt g'', region_end_cnt := region_end_cnt g''\<rparr>"
  have "g'' = (g\<lparr>mallocs_left := mallocs_left g', stdout := stdout g',
              binary_tree := binary_tree g', root := root g',
              region_begin_cnt := region_begin_cnt g', region_end_cnt := region_end_cnt g'\<rparr>)
            \<lparr>mallocs_left := mallocs_left g'', stdout := stdout g'',
              binary_tree := binary_tree g'', root := root g'',
              region_begin_cnt := region_begin_cnt g'', region_end_cnt := region_end_cnt g''\<rparr>"
    using a b by simp
  then show "g'' = g\<lparr>mallocs_left := mallocs_left g'', stdout := stdout g'',
              binary_tree := binary_tree g'', root := root g'',
              region_begin_cnt := region_begin_cnt g'', region_end_cnt := region_end_cnt g''\<rparr>"
    by simp
qed

lemma frame_store_frame: "frame g g' \<Longrightarrow> store_frame g g'"
proof -
  assume f: "frame g g'"
  then have e: "g' = g\<lparr>mallocs_left := mallocs_left g', stdout := stdout g'\<rparr>"
    by (simp add: frame_def)
  have "g\<lparr>mallocs_left := mallocs_left g', stdout := stdout g'\<rparr> =
        g\<lparr>mallocs_left := mallocs_left g', stdout := stdout g',
              binary_tree := binary_tree g, root := root g,
              region_begin_cnt := region_begin_cnt g, region_end_cnt := region_end_cnt g\<rparr>"
    by simp
  with e frame_fields(1,10,11,13) [OF f] show ?thesis
    by (simp add: store_frame_def)
qed

lemma frame_region_node: "frame g g' \<Longrightarrow> region_node g' = region_node g"
proof -
  assume "frame g g'"
  from frame_fields(1,13) [OF this] have b: "binary_tree g' = binary_tree g" "root g' = root g" .
  then have t: "thread_at g' = thread_at g"
    by (simp add: thread_at_def fun_eq_iff)
  show ?thesis
    unfolding region_node_def internal_hl_find_thread_node_def t b ..
qed

lemma store_counters_tree:
  "internal_hl_store_counters h lc cyc tid rname typ g = Some res \<Longrightarrow> binary_tree g \<noteq> None"
  by (auto simp: internal_hl_store_counters_def internal_hl_find_thread_node_def
        split: option.splits)

subsection \<open>Region begin and region end, step by step\<close>



lemma pair_delta_cong: "store_frame g g' \<Longrightarrow> pair_delta g' = pair_delta g"
  using store_frame_fields(1) [of g g'] store_frame_obs(1,2,3) [of g g']
  by (simp add: pair_delta_def fun_eq_iff)

lemma store_frame_refl: "store_frame g g"
  by (simp add: store_frame_def)

lemma sum_list_ones: "sum_list (map (\<lambda>p. 1) ps) = (of_nat (length ps) :: long_long)"
  by (induction ps) simp_all


lemmas json_defs = internal_PAPI_hl_print_output_def internal_hl_write_output_def
  internal_hl_mkdir_def internal_hl_determine_rank_def internal_hl_json_regions_def
  internal_hl_json_region_events_def last_report_def

lemma json_read_values_zip: "json_read_values n xs = zip [n..<n + length xs] xs"
proof (induction xs arbitrary: n)
  case Nil
  show ?case by simp
next
  case (Cons x xs)
  have "[n..<n + length (x # xs)] = n # [Suc n..<Suc n + length xs]"
    by (simp add: upt_rec)
  with Cons [of "Suc n"] show ?case by simp
qed

lemma json_region_events_Some:
  assumes "internal_hl_json_region_events g heap n = Some evs"
  shows "length evs = total_num_events g + 2 \<and>
         (\<forall>j<total_num_events g + 2.
            fst (snd (evs ! j)) = total (values' n j) \<and>
            snd (snd (evs ! j)) = json_read_values 1 (rev (read_values (values' n j))))"
  using assms unfolding internal_hl_json_region_events_def Let_def
  by (auto split: prod.splits bool.splits simp del: upt_Suc)

lemma json_regions_loop_Some:
  "json_regions_loop g ns heap = Some (out, heap') \<Longrightarrow>
     map fst out = map region ns \<and>
     (\<forall>k<length ns. \<exists>hp. internal_hl_json_region_events g hp (ns ! k) = Some (snd (out ! k)))"
proof (induction ns arbitrary: heap out)
  case Nil
  then show ?case by simp
next
  case (Cons n ns)
  from Cons.prems obtain evs out1 where
    e: "internal_hl_json_region_events g heap n = Some evs" and
    r: "json_regions_loop g ns (snd (malloc heap)) = Some (out1, heap')" and
    o: "out = (region n, evs) # out1"
    by (auto split: option.splits)
  from Cons.IH [OF r] e o show ?case
    by (auto simp: nth_Cons')
qed

subsection \<open>Regions without a node\<close>





















subsection \<open>Region begin on an existing node\<close>

text \<open>
  Claim C10. PAPI-HL is active, initiated, not finalized, the events are determined, and
  the value array of a region has a slot for every event.
  If \<open>PAPI_hl_region_begin\<close> returns \<open>PAPI_OK\<close> and the store held a node for the
  region at position \<open>r\<close> of the region list of the calling thread's node \<open>t\<close>, then
  the store after the call is the store before it with that one node replaced, and the
  new node is the old one with other \<open>offset\<close> fields: every \<open>total\<close>, every list of
  read values, the region name, the other nodes of the thread and the other threads
  are as they were.
\<close>

theorem region_begin_existing_node_only_offsets:
  assumes "state g = PAPIHL_ACTIVE" "hl_finalized g = False" "hl_initiated g = True"
    "events_determined g = True"
    and "binary_tree g = Some tree" "tfind (PAPI_thread_id h) tree (root g) = Some t"
    and "internal_hl_find_region_node (regions (tree ! t)) rname = Some r"
    and "PAPI_hl_region_begin h rname (l, g) = Some (PAPI_OK, l', g')"
    and "length (event_slots g) \<le> total_num_events g"
  shows "\<exists>off. binary_tree g' =
           Some (tree[t := (tree ! t)\<lparr>regions := (regions (tree ! t))
                   [r := (regions (tree ! t) ! r)
                      \<lparr>values' := \<lambda>m. (values' (regions (tree ! t) ! r) m)\<lparr>offset := off m\<rparr>\<rparr>]\<rparr>]) \<and>
           root g' = root g"
proof -
  from region_begin_OK [OF assms(1-4) assms(8)] obtain l1 g1 l2 where
    f: "frame g g1" and
    rs: "internal_hl_read_and_store_counters h rname REGION_BEGIN (l1, g1) = Some (PAPI_OK, l2, g')"
    by blast
  from read_and_store_OK [OF rs] have
    st: "internal_hl_store_counters h (deref_local_components l2) (local_cycles l2)
           (PAPI_thread_id h) rname REGION_BEGIN g1 = Some (PAPI_OK, g')"
    by simp
  have bt: "binary_tree g1 = Some tree" "tfind (PAPI_thread_id h) tree (root g1) = Some t"
    using frame_fields(1,13) [OF f] assms(5,6) by simp_all
  from st frame_fields(13) [OF f] show ?thesis
    unfolding store_counters_existing [OF bt assms(7)] add_values_begin
    by (auto simp: Let_def)
qed

theorem region_begin_existing_node_only_offsets_witness:
  "let l = fst (snd (the scen_begin_b_after)); g = snd (snd (the scen_begin_c_8));
       tree = the (binary_tree g); g' = snd (snd (the scen_rebegin_a))
   in state g = PAPIHL_ACTIVE \<and> hl_finalized g = False \<and> hl_initiated g = True \<and>
      events_determined g = True \<and> length (event_slots g) \<le> total_num_events g \<and>
      binary_tree g = Some tree \<and>
      tfind (PAPI_thread_id (hw_quiet 200 9)) tree (root g) = Some 0 \<and>
      internal_hl_find_region_node (regions (tree ! 0)) ''a'' = Some 1 \<and>
      PAPI_hl_region_begin (hw_quiet 200 9) ''a'' (l, g) = Some (PAPI_OK, snd (the scen_rebegin_a)) \<and>
      (\<exists>off. binary_tree g' =
         Some (tree[0 := (tree ! 0)\<lparr>regions := (regions (tree ! 0))
                 [1 := (regions (tree ! 0) ! 1)
                    \<lparr>values' := \<lambda>m. (values' (regions (tree ! 0) ! 1) m)\<lparr>offset := off m\<rparr>\<rparr>]\<rparr>]) \<and>
         root g' = root g) \<and>
      length tree = 2 \<and> map key tree = [7, 8] \<and> map region (regions (tree ! 0)) = [''b'', ''a''] \<and>
      map (\<lambda>m. total (values' (regions (tree ! 0) ! 1) m)) [0, 1, 2, 3] = [1, 2, 10, 111] \<and>
      map (\<lambda>m. read_values (values' (regions (tree ! 0) ! 1) m)) [0, 1, 2, 3]
        = [[], [1], [5], [106]] \<and>
      map (\<lambda>m. offset (values' (regions (tree ! 0) ! 1) m)) [0, 1, 2, 3] = [1, 5, 100, 101] \<and>
      map (\<lambda>m. total (values' (regions (the (binary_tree g') ! 0) ! 1) m)) [0, 1, 2, 3]
        = [1, 2, 10, 111] \<and>
      map (\<lambda>m. read_values (values' (regions (the (binary_tree g') ! 0) ! 1) m)) [0, 1, 2, 3]
        = [[], [1], [5], [106]] \<and>
      map (\<lambda>m. offset (values' (regions (the (binary_tree g') ! 0) ! 1) m)) [0, 1, 2, 3]
        = [1, 9, 200, 201] \<and>
      regions (the (binary_tree g') ! 0) ! 0 = regions (tree ! 0) ! 0 \<and>
      the (binary_tree g') ! 1 = tree ! 1"
proof -
  have "\<exists>l8 g. scen_begin_c_8 = Some (PAPI_OK, l8, g) \<and>
     (\<exists>rv l7 g7. scen_begin_b_after = Some (rv, l7, g7) \<and>
     state g = PAPIHL_ACTIVE \<and> hl_finalized g = False \<and> hl_initiated g = True \<and>
     events_determined g = True \<and> length (event_slots g) \<le> total_num_events g \<and>
     (\<exists>tree. binary_tree g = Some tree \<and> length tree = 2 \<and> map key tree = [7, 8] \<and>
        tfind (PAPI_thread_id (hw_quiet 200 9)) tree (root g) = Some 0 \<and>
        internal_hl_find_region_node (regions (tree ! 0)) ''a'' = Some 1 \<and>
        map region (regions (tree ! 0)) = [''b'', ''a''] \<and>
        map (\<lambda>m. total (values' (regions (tree ! 0) ! 1) m)) [0, 1, 2, 3] = [1, 2, 10, 111] \<and>
        map (\<lambda>m. read_values (values' (regions (tree ! 0) ! 1) m)) [0, 1, 2, 3] = [[], [1], [5], [106]] \<and>
        map (\<lambda>m. offset (values' (regions (tree ! 0) ! 1) m)) [0, 1, 2, 3] = [1, 5, 100, 101]) \<and>
     (\<exists>l' g'. PAPI_hl_region_begin (hw_quiet 200 9) ''a'' (l7, g) = Some (PAPI_OK, l', g') \<and>
        map (\<lambda>m. offset (values' (regions (the (binary_tree g') ! 0) ! 1) m)) [0, 1, 2, 3]
          = [1, 9, 200, 201]))"
    by (simp add: scen_defs event_slots_def eval_defs)
  then obtain l8 g rv l7 g7 tree l' g' where
    a8: "scen_begin_c_8 = Some (PAPI_OK, l8, g)" and
    a7: "scen_begin_b_after = Some (rv, l7, g7)" and
    h: "state g = PAPIHL_ACTIVE" "hl_finalized g = False" "hl_initiated g = True"
       "events_determined g = True" and
    sz: "length (event_slots g) \<le> total_num_events g" and
    t: "binary_tree g = Some tree" "tfind (PAPI_thread_id (hw_quiet 200 9)) tree (root g) = Some 0"
       "internal_hl_find_region_node (regions (tree ! 0)) ''a'' = Some 1" and
    n: "length tree = 2" "map key tree = [7, 8]" "map region (regions (tree ! 0)) = [''b'', ''a'']" and
    o: "map (\<lambda>m. total (values' (regions (tree ! 0) ! 1) m)) [0, 1, 2, 3] = [1, 2, 10, 111]"
       "map (\<lambda>m. read_values (values' (regions (tree ! 0) ! 1) m)) [0, 1, 2, 3] = [[], [1], [5], [106]]"
       "map (\<lambda>m. offset (values' (regions (tree ! 0) ! 1) m)) [0, 1, 2, 3] = [1, 5, 100, 101]" and
    b: "PAPI_hl_region_begin (hw_quiet 200 9) ''a'' (l7, g) = Some (PAPI_OK, l', g')" and
    o': "map (\<lambda>m. offset (values' (regions (the (binary_tree g') ! 0) ! 1) m)) [0, 1, 2, 3]
          = [1, 9, 200, 201]"
    by (elim exE conjE) (rule that; assumption)
  have s8: "snd (snd (the scen_begin_c_8)) = g"
    using a8 by (metis option.sel snd_conv)
  have s7: "fst (snd (the scen_begin_b_after)) = l7"
    using a7 by (metis option.sel snd_conv fst_conv)
  have "scen_rebegin_a = Some (PAPI_OK, l', g')"
    using b unfolding scen_rebegin_a_def s7 s8 .
  then have s2: "snd (the scen_rebegin_a) = (l', g')"
    by (metis option.sel snd_conv)
  have tr: "the (binary_tree g) = tree"
    using t by simp
  have lr: "length (regions (tree ! 0)) = 2"
    using n(3) by (metis length_map length_Cons list.size(3) One_nat_def Suc_1)
  from region_begin_existing_node_only_offsets [OF h t b sz] obtain off where
    bt: "binary_tree g' =
           Some (tree[0 := (tree ! 0)\<lparr>regions := (regions (tree ! 0))
                   [1 := (regions (tree ! 0) ! 1)
                      \<lparr>values' := \<lambda>m. (values' (regions (tree ! 0) ! 1) m)\<lparr>offset := off m\<rparr>\<rparr>]\<rparr>])"
    and rt: "root g' = root g"
    by blast
  have nd: "regions (the (binary_tree g') ! 0) ! 1 =
              (regions (tree ! 0) ! 1)
                 \<lparr>values' := \<lambda>m. (values' (regions (tree ! 0) ! 1) m)\<lparr>offset := off m\<rparr>\<rparr>"
    "regions (the (binary_tree g') ! 0) ! 0 = regions (tree ! 0) ! 0"
    "the (binary_tree g') ! 1 = tree ! 1"
    using n(1) lr by (simp_all add: bt)
  have o2: "map (\<lambda>m. total (values' (regions (the (binary_tree g') ! 0) ! 1) m)) [0, 1, 2, 3]
        = [1, 2, 10, 111]"
      "map (\<lambda>m. read_values (values' (regions (the (binary_tree g') ! 0) ! 1) m)) [0, 1, 2, 3]
        = [[], [1], [5], [106]]"
    using o(1,2) nd(1) by simp_all
  from h sz t b bt rt n o o' o2 nd(2,3) show ?thesis
    unfolding Let_def s2 s7 s8 snd_conv fst_conv tr by blast
qed

subsection \<open>The event specification\<close>

text \<open>
  Claim C7 (the empty event string must be an error). The code returns \<open>PAPI_OK\<close>:
  \<open>num_of_req_events\<close> starts at 1, so the test \<open>num_of_requested_events == 0\<close> never
  holds. For the empty string \<open>_internal_hl_read_user_events\<close> reports one requested
  event and leaves \<open>requested_event_names\<close> unallocated, and \<open>PAPI_hl_set_events\<close> then
  reads the name of that event through the null pointer.
\<close>

theorem read_user_events_empty_string_succeeds:
  "internal_hl_read_user_events [] (glob_init 100) =
     (PAPI_OK, (glob_init 100)\<lparr>mallocs_left := 99, num_of_requested_events := 1\<rparr>) \<and>
   scen_set_events_empty = None"
  by (simp add: scen_set_events_empty_def glob_initiated_def eval_defs)

text \<open>
  Claim C6 (the type of an event depends on its own suffix only). \<open>event_type\<close> is set
  when a name contains \<open>=\<close> and is not reset for a name without it, so a name without
  suffix gets the type of the name before it: \<open>PAPI_TOT_CYC\<close> is tagged instant (1)
  after \<open>PAPI_TOT_INS=instant\<close> and delta (0) before it.
\<close>

theorem event_type_carried_over:
  "fst (the scen_instant_first) = PAPI_OK \<and>
   event_names (components (snd (the scen_instant_first)) 0) 1 = ''PAPI_TOT_CYC'' \<and>
   event_types (components (snd (the scen_instant_first)) 0) 1 = 1 \<and>
   fst (the scen_instant_last) = PAPI_OK \<and>
   event_names (components (snd (the scen_instant_last)) 0) 0 = ''PAPI_TOT_CYC'' \<and>
   event_types (components (snd (the scen_instant_last)) 0) 0 = 0"
  by (simp add: scen_instant_first_def scen_instant_last_def glob_initiated_def eval_defs)

text \<open>
  Claim C8. A call of \<open>PAPI_hl_set_events\<close> while PAPI-HL is active and the events are
  determined returns \<open>PAPI_OK\<close> and changes no global variable; and after any call that
  returned \<open>PAPI_OK\<close>, a second call, with any event string and any answers of the
  environment, returns \<open>PAPI_OK\<close> and changes no global variable, so the requested
  events, the components and \<open>total_num_events\<close> stay as the first call left them.
\<close>

theorem set_events_twice:
  "(events_determined g = True \<and> state g = PAPIHL_ACTIVE \<longrightarrow>
      internal_PAPI_hl_set_events h events g = Some (PAPI_OK, g)) \<and>
   (internal_PAPI_hl_set_events h events g = Some (PAPI_OK, g1) \<longrightarrow>
      internal_PAPI_hl_set_events h2 events2 g1 = Some (PAPI_OK, g1))"
proof (intro conjI impI)
  assume "events_determined g = True \<and> state g = PAPIHL_ACTIVE"
  then show "internal_PAPI_hl_set_events h events g = Some (PAPI_OK, g)"
    by (simp add: set_events_determined)
next
  assume "internal_PAPI_hl_set_events h events g = Some (PAPI_OK, g1)"
  from set_events_OK [OF this]
  show "internal_PAPI_hl_set_events h2 events2 g1 = Some (PAPI_OK, g1)"
    by (auto simp: internal_PAPI_hl_set_events_def PAPIHL_ACTIVE_def PAPIHL_DEACTIVATED_def)
qed

theorem set_events_twice_witness:
  "events_determined (snd (the scen_instant_last)) = True \<and>
   state (snd (the scen_instant_last)) = PAPIHL_ACTIVE \<and>
   internal_PAPI_hl_set_events (hw_quiet 1 1) None (snd (the scen_instant_last))
     = Some (PAPI_OK, snd (the scen_instant_last)) \<and>
   internal_PAPI_hl_set_events (hw_quiet 0 0) (Some ''PAPI_TOT_CYC,PAPI_TOT_INS=instant'')
     glob_initiated = Some (PAPI_OK, snd (the scen_instant_last)) \<and>
   internal_PAPI_hl_set_events (hw_quiet 1 1) (Some ''PAPI_TOT_INS'') (snd (the scen_instant_last))
     = Some (PAPI_OK, snd (the scen_instant_last))"
proof -
  have "\<exists>g. scen_instant_last = Some (PAPI_OK, g) \<and> events_determined g = True \<and>
          state g = PAPIHL_ACTIVE"
    by (simp add: scen_instant_last_def glob_initiated_def eval_defs)
  then obtain g where a: "scen_instant_last = Some (PAPI_OK, g)"
    and d: "events_determined g = True" "state g = PAPIHL_ACTIVE"
    by blast
  have s: "snd (the scen_instant_last) = g"
    using a by (metis option.sel snd_conv)
  have b: "internal_PAPI_hl_set_events (hw_quiet 0 0)
             (Some ''PAPI_TOT_CYC,PAPI_TOT_INS=instant'') glob_initiated = Some (PAPI_OK, g)"
    using a unfolding scen_instant_last_def .
  from set_events_twice [of g "hw_quiet 1 1" None g "hw_quiet 1 1" None]
    set_events_twice [of glob_initiated "hw_quiet 0 0"
        "Some ''PAPI_TOT_CYC,PAPI_TOT_INS=instant''" g "hw_quiet 1 1" "Some ''PAPI_TOT_INS''"]
    d b
  show ?thesis
    unfolding s by simp
qed

subsection \<open>Output with regions that do not match\<close>

text \<open>
  Claim C4. PAPI-HL is active and initiated, no output has been generated, the store
  exists, and the counts of region begins and region ends differ. Then
  \<open>PAPI_hl_print_output\<close> creates no file, sends the warning to the stream that
  \<open>verbosity\<close> gates, and sets \<open>output_generated\<close>; a second call changes nothing.
\<close>

theorem print_output_not_matching:
  assumes "state g = PAPIHL_ACTIVE" "hl_initiated g = True" "output_generated g = False"
    and "binary_tree g \<noteq> None" "region_begin_cnt g \<noteq> region_end_cnt g"
  shows "\<exists>g'. internal_PAPI_hl_print_output h g = Some g' \<and>
           files g' = files g \<and>
           stdout g' = stdout g @ (if verbosity g = 1 then [not_matching_warning] else []) \<and>
           output_generated g' = True \<and>
           internal_PAPI_hl_print_output h2 g' = Some g'"
  using assms
  by (simp add: internal_PAPI_hl_print_output_def internal_hl_write_output_def
        verbose_fprintf_def not_matching_warning_def)

theorem print_output_not_matching_witness:
  "state (snd (snd (the scen_begin_a))) = PAPIHL_ACTIVE \<and>
   hl_initiated (snd (snd (the scen_begin_a))) = True \<and>
   output_generated (snd (snd (the scen_begin_a))) = False \<and>
   binary_tree (snd (snd (the scen_begin_a))) \<noteq> None \<and>
   region_begin_cnt (snd (snd (the scen_begin_a))) \<noteq> region_end_cnt (snd (snd (the scen_begin_a))) \<and>
   (\<exists>g'. internal_PAPI_hl_print_output (hw_quiet 0 0) (snd (snd (the scen_begin_a))) = Some g' \<and>
      files g' = files (snd (snd (the scen_begin_a))) \<and>
      stdout g' = stdout (snd (snd (the scen_begin_a))) @
        (if verbosity (snd (snd (the scen_begin_a))) = 1 then [not_matching_warning] else []) \<and>
      output_generated g' = True \<and>
      internal_PAPI_hl_print_output (hw_quiet 0 0) g' = Some g')"
proof -
  have "\<exists>l g. scen_begin_a = Some (PAPI_OK, l, g) \<and> state g = PAPIHL_ACTIVE \<and>
          hl_initiated g = True \<and> output_generated g = False \<and> binary_tree g \<noteq> None \<and>
          region_begin_cnt g \<noteq> region_end_cnt g"
    by (simp add: scen_begin_a_def eval_defs)
  then obtain l g where a: "scen_begin_a = Some (PAPI_OK, l, g)"
    and h: "state g = PAPIHL_ACTIVE" "hl_initiated g = True" "output_generated g = False"
      "binary_tree g \<noteq> None" "region_begin_cnt g \<noteq> region_end_cnt g"
    by blast
  have s: "snd (snd (the scen_begin_a)) = g"
    using a by (metis option.sel snd_conv)
  from print_output_not_matching [OF h, of "hw_quiet 0 0" "hw_quiet 0 0"] h
  show ?thesis
    unfolding s by simp
qed

subsection \<open>Shutting down the low-level library\<close>

text \<open>
  Claim C9. \<open>PAPI_shutdown\<close> has not been called and the components are not freed.
  If \<open>_internal_hl_clean_up_all\<close> returns, it has called \<open>PAPI_shutdown\<close> exactly when
  PAPI-HL was active, the scan of the event sets found none running, and the number of
  threads that PAPI lists equals \<open>num_of_cleaned_threads\<close>; the components are freed
  exactly when \<open>PAPI_shutdown\<close> is called; and when PAPI-HL was active and the shutdown
  is skipped, the last line sent to the stream that \<open>verbosity\<close> gates is the warning.
\<close>

theorem shutdown_only_when_all_threads_clean:
  assumes "internal_hl_clean_up_all h deactivate (l, g) = Some (l', g')"
    and "papi_shutdown_called g = False" "components_freed g = False"
  shows "(papi_shutdown_called g' = True \<longleftrightarrow>
            state g = PAPIHL_ACTIVE \<and> no_session_running h \<and>
            int (length (snd (PAPI_list_threads h))) = num_of_cleaned_threads g') \<and>
         components_freed g' = papi_shutdown_called g' \<and>
         (state g = PAPIHL_ACTIVE \<and> papi_shutdown_called g' = False \<and> verbosity g = 1 \<longrightarrow>
            stdout g' \<noteq> [] \<and> last (stdout g') = shutdown_warning)"
proof -
  obtain l1 g1 where loc:
    "(if local_state l = PAPIHL_ACTIVE
      then internal_hl_clean_up_local_data h (l, g\<lparr>output_generated := True\<rparr>)
      else (l, g\<lparr>output_generated := True\<rparr>)) = (l1, g1)"
    by (cases "if local_state l = PAPIHL_ACTIVE
      then internal_hl_clean_up_local_data h (l, g\<lparr>output_generated := True\<rparr>)
      else (l, g\<lparr>output_generated := True\<rparr>)") auto
  then have f1: "state g1 = state g" "papi_shutdown_called g1 = papi_shutdown_called g"
    "components_freed g1 = components_freed g" "verbosity g1 = verbosity g"
    by (auto split: if_splits dest: clean_up_local_data_fields)
  show ?thesis
  proof (cases "state g = PAPIHL_ACTIVE")
    case False
    with assms loc f1 show ?thesis
      by (auto simp: internal_hl_clean_up_all_def Let_def split: if_splits)
  next
    case True
    with assms(1) loc f1 obtain g2 where
      cg: "internal_hl_clean_up_global_data
             (verbose_fprintf g1 ''PAPI-HL Info: Output generation is deactivated!'' []) = Some g2"
      by (auto simp: internal_hl_clean_up_all_def Let_def split: if_splits option.splits)
    from clean_up_global_data_fields [OF cg] f1 assms(2,3)
    have f2: "papi_shutdown_called g2 = False" "components_freed g2 = False"
      "verbosity g2 = verbosity g"
      by (simp_all add: verbose_fprintf_def)
    let ?ok = "internal_hl_check_for_clean_thread_states h = PAPI_OK \<and>
               int (length (snd (PAPI_list_threads h))) = num_of_cleaned_threads g2"
    let ?g3 = "if ?ok then g2\<lparr>papi_shutdown_called := True, components_freed := True\<rparr>
               else verbose_fprintf g2 (fst shutdown_warning) (snd shutdown_warning)"
    have s1: "state g1 = PAPIHL_ACTIVE"
      using True f1 by simp
    have "internal_hl_clean_up_all h deactivate (l, g) =
            Some (l1, if deactivate then ?g3\<lparr>state := PAPIHL_DEACTIVATED\<rparr> else ?g3)"
      unfolding internal_hl_clean_up_all_def
      by (simp only: prod.case Let_def loc s1 cg option.case if_True simp_thms)
    with assms(1) have gp: "g' = (if deactivate then ?g3\<lparr>state := PAPIHL_DEACTIVATED\<rparr> else ?g3)"
      by simp
    have n: "num_of_cleaned_threads g' = num_of_cleaned_threads g2"
      by (simp add: gp verbose_fprintf_def)
    have ok: "internal_hl_check_for_clean_thread_states h = PAPI_OK \<longleftrightarrow> no_session_running h"
      by (simp add: internal_hl_check_for_clean_thread_states_def no_session_running_def
            check_for_clean_thread_states_loop_OK)
    have a: "papi_shutdown_called g' = True \<longleftrightarrow> ?ok"
      by (simp add: gp f2 verbose_fprintf_def)
    have b: "components_freed g' = papi_shutdown_called g'"
      by (simp add: gp f2 verbose_fprintf_def)
    have c: "papi_shutdown_called g' = False \<and> verbosity g = 1 \<longrightarrow>
               stdout g' \<noteq> [] \<and> last (stdout g') = shutdown_warning"
      using a by (auto simp: gp f2 verbose_fprintf_def)
    from a b c True n ok show ?thesis
      by simp
  qed
qed

theorem shutdown_only_when_all_threads_clean_witness:
  "(\<exists>l' g'. internal_hl_clean_up_all (hw_quiet 0 0) True (snd (the scen_begin_a)) = Some (l', g') \<and>
      papi_shutdown_called (snd (snd (the scen_begin_a))) = False \<and>
      components_freed (snd (snd (the scen_begin_a))) = False \<and>
      state (snd (snd (the scen_begin_a))) = PAPIHL_ACTIVE \<and>
      no_session_running (hw_quiet 0 0) \<and>
      int (length (snd (PAPI_list_threads (hw_quiet 0 0)))) = num_of_cleaned_threads g' \<and>
      papi_shutdown_called g' = True \<and> components_freed g' = True) \<and>
   (\<exists>l' g'. internal_hl_clean_up_all ((hw_quiet 0 0)\<lparr>dataSlotArray := [Some 2]\<rparr>) True
               (snd (the scen_begin_a)) = Some (l', g') \<and>
      state (snd (snd (the scen_begin_a))) = PAPIHL_ACTIVE \<and>
      verbosity (snd (snd (the scen_begin_a))) = 1 \<and>
      \<not> no_session_running ((hw_quiet 0 0)\<lparr>dataSlotArray := [Some 2]\<rparr>) \<and>
      papi_shutdown_called g' = False \<and> components_freed g' = False \<and>
      last (stdout g') = shutdown_warning)"
proof -
  have "\<exists>l g. scen_begin_a = Some (PAPI_OK, l, g) \<and> state g = PAPIHL_ACTIVE \<and>
          papi_shutdown_called g = False \<and> components_freed g = False \<and> verbosity g = 1 \<and>
          (\<exists>l' g'. internal_hl_clean_up_all (hw_quiet 0 0) True (l, g) = Some (l', g') \<and>
             int (length (snd (PAPI_list_threads (hw_quiet 0 0)))) = num_of_cleaned_threads g') \<and>
          (\<exists>l' g'. internal_hl_clean_up_all ((hw_quiet 0 0)\<lparr>dataSlotArray := [Some 2]\<rparr>) True
                      (l, g) = Some (l', g'))"
    by (simp add: scen_begin_a_def eval_defs)
  then obtain l g l1 g1 l2 g2 where a: "scen_begin_a = Some (PAPI_OK, l, g)"
    and h: "state g = PAPIHL_ACTIVE" "papi_shutdown_called g = False"
      "components_freed g = False" "verbosity g = 1"
    and c1: "internal_hl_clean_up_all (hw_quiet 0 0) True (l, g) = Some (l1, g1)"
      "int (length (snd (PAPI_list_threads (hw_quiet 0 0)))) = num_of_cleaned_threads g1"
    and c2: "internal_hl_clean_up_all ((hw_quiet 0 0)\<lparr>dataSlotArray := [Some 2]\<rparr>) True (l, g)
               = Some (l2, g2)"
    by blast
  have s: "snd (the scen_begin_a) = (l, g)"
    using a by (metis option.sel snd_conv)
  have r1: "no_session_running (hw_quiet 0 0)"
    by (simp add: no_session_running_def hw_quiet_def)
  have r2: "\<not> no_session_running ((hw_quiet 0 0)\<lparr>dataSlotArray := [Some 2]\<rparr>)"
    by (simp add: no_session_running_def PAPI_RUNNING_def)
  from shutdown_only_when_all_threads_clean [OF c1(1) h(2,3)]
    shutdown_only_when_all_threads_clean [OF c2 h(2,3)] h c1 c2 r1 r2
  show ?thesis
    unfolding s snd_conv by auto
qed

subsection \<open>Totals after matched pairs\<close>



text \<open>
  Claim C5. \<open>_internal_hl_insert_region_node\<close> puts a new region at the head of the
  thread's list, so the store is newest first.  \<open>_internal_hl_json_regions\<close> goes to
  the last node and prints along \<open>prev\<close>: the regions of a thread are printed in the
  reverse of the store's order, the region opened first coming first.  In every slot
  of every region the read values are printed from the tail of the chain to its head,
  the value read first coming first, numbered 1, 2, ... without a gap.
\<close>

theorem json_regions_oldest_first:
  "(\<forall>rs' hp. internal_hl_insert_region_node g rs rname = (Some rs', hp) \<longrightarrow>
       region (hd rs') = rname \<and> tl rs' = rs) \<and>
   (\<forall>out heap'. internal_hl_json_regions g thread_node heap = Some (out, heap') \<longrightarrow>
       map fst out = rev (map region (regions thread_node)) \<and>
       (\<forall>k<length (regions thread_node). \<forall>j<total_num_events g + 2.
          snd (snd (snd (out ! k) ! j)) =
            zip [1..<1 + length (read_values (values' (rev (regions thread_node) ! k) j))]
                (rev (read_values (values' (rev (regions thread_node) ! k) j)))))"
proof (intro conjI allI impI)
  fix rs' hp
  assume "internal_hl_insert_region_node g rs rname = (Some rs', hp)"
  from insert_region_node_Some [OF this]
  show "region (hd rs') = rname" "tl rs' = rs" by simp_all
next
  fix out heap'
  assume a: "internal_hl_json_regions g thread_node heap = Some (out, heap')"
  then have l: "json_regions_loop g (rev (regions thread_node)) heap = Some (out, heap')"
    by (auto simp: internal_hl_json_regions_def split: list.splits)
  from json_regions_loop_Some [OF l]
  show "map fst out = rev (map region (regions thread_node))"
    by (simp add: rev_map)
next
  fix out heap' k j
  assume a: "internal_hl_json_regions g thread_node heap = Some (out, heap')"
    and k: "k < length (regions thread_node)" and j: "j < total_num_events g + 2"
  from a have l: "json_regions_loop g (rev (regions thread_node)) heap = Some (out, heap')"
    by (auto simp: internal_hl_json_regions_def split: list.splits)
  from json_regions_loop_Some [OF l] k obtain hp where
    "internal_hl_json_region_events g hp (rev (regions thread_node) ! k) = Some (snd (out ! k))"
    by auto
  from json_region_events_Some [OF this] j
  show "snd (snd (snd (out ! k) ! j)) =
            zip [1..<1 + length (read_values (values' (rev (regions thread_node) ! k) j))]
                (rev (read_values (values' (rev (regions thread_node) ! k) j)))"
    by (simp add: json_read_values_zip)
qed

theorem json_regions_oldest_first_witness:
  "(\<exists>rs' hp. internal_hl_insert_region_node (snd (snd (the scen_begin_b_nested)))
        (regions (thread_at (snd (snd (the scen_begin_b_nested))) 0)) ''c'' = (Some rs', hp) \<and>
      region (hd rs') = ''c'' \<and>
      tl rs' = regions (thread_at (snd (snd (the scen_begin_b_nested))) 0)) \<and>
   map region (regions (thread_at (snd (snd (the scen_begin_b_nested))) 0)) = [''b'', ''a''] \<and>
   (\<exists>out heap'. internal_hl_json_regions (snd (snd (the scen_begin_b_nested)))
        (thread_at (snd (snd (the scen_begin_b_nested))) 0) 50 = Some (out, heap') \<and>
      map fst out = [''a'', ''b''] \<and>
      snd (snd (snd (out ! 0) ! 2)) = [(1, 5)] \<and>
      snd (snd (snd (out ! 1) ! 2)) = [])"
proof -
  have "\<exists>rv l g. scen_begin_b_nested = Some (rv, l, g) \<and> total_num_events g = 2 \<and>
          (\<exists>n1 n0. regions (thread_at g 0) = [n1, n0] \<and> region n1 = ''b'' \<and> region n0 = ''a'' \<and>
             read_values (values' n0 2) = [5] \<and> read_values (values' n1 2) = []) \<and>
          (\<exists>rs' hp. internal_hl_insert_region_node g (regions (thread_at g 0)) ''c'' = (Some rs', hp)) \<and>
          (\<exists>out heap'. internal_hl_json_regions g (thread_at g 0) 50 = Some (out, heap'))"
    by (simp add: scen_begin_b_nested_def scen_read_a_def scen_begin_a_def json_defs eval_defs)
  then obtain rv l g n1 n0 rs' hp out heap' where
    a: "scen_begin_b_nested = Some (rv, l, g)" and n: "total_num_events g = 2"
    and r: "regions (thread_at g 0) = [n1, n0]" "region n1 = ''b''" "region n0 = ''a''"
      "read_values (values' n0 2) = [5]" "read_values (values' n1 2) = []"
    and i: "internal_hl_insert_region_node g (regions (thread_at g 0)) ''c'' = (Some rs', hp)"
    and j: "internal_hl_json_regions g (thread_at g 0) 50 = Some (out, heap')"
    by blast
  have s: "snd (snd (the scen_begin_b_nested)) = g"
    using a by (metis option.sel snd_conv)
  note t = json_regions_oldest_first [of g "regions (thread_at g 0)" "''c''" "thread_at g 0" 50]
  from t i have c1: "region (hd rs') = ''c''" "tl rs' = regions (thread_at g 0)"
    by blast+
  from t j have c2: "map fst out = rev (map region (regions (thread_at g 0)))"
    and c3: "\<forall>k<length (regions (thread_at g 0)). \<forall>j<total_num_events g + 2.
          snd (snd (snd (out ! k) ! j)) =
            zip [1..<1 + length (read_values (values' (rev (regions (thread_at g 0)) ! k) j))]
                (rev (read_values (values' (rev (regions (thread_at g 0)) ! k) j)))"
    by blast+
  from c3 [rule_format, of 0 2] have c4: "snd (snd (snd (out ! 0) ! 2)) = [(1, 5)]"
    by (simp add: r n)
  from c3 [rule_format, of 1 2] have c5: "snd (snd (snd (out ! 1) ! 2)) = []"
    by (simp add: r n)
  from i j c1 c2 c4 c5 show ?thesis
    unfolding s by (simp add: r)
qed

text \<open>
  After \<open>begin(a)\<close>, two pairs on \<open>b\<close> and \<open>end(a)\<close> the store of thread 7 holds
  \<open>b\<close> before \<open>a\<close>, and the report written from it holds \<open>a\<close> before \<open>b\<close>.
\<close>

theorem regions_in_report_counterexample:
  "map region (regions (the (binary_tree (snd (snd (the scen_end_a_last)))) ! 0)) = [''b'', ''a''] \<and>
   map fst (snd (hd (last_report (the scen_report)))) = [''a'', ''b'']"
  by (simp add: scen_report_def scen_end_a_last_def scen_pairs_b_def scen_pairs_def
        scen_begin_a_def json_defs eval_defs)

subsection \<open>Reading and ending a region that was never opened\<close>




end
